theory Spec2Isabelle
  imports Complex_Main
begin

section \<open>JavaScript values read from a request\<close>

text \<open>
  The handlers of the anomaly controller read the parsed JSON body of a request.  A value
  of the body is one of JavaScript's JSON-borne values; an absent property reads as
  \<open>undefined\<close>.  Numbers are only tested against zero and compared for equality.
\<close>

datatype jsval =
    JUndefined
  | JNull
  | JBool bool
  | JNum rat
  | JStr string
  | JArr "jsval list"
  | JObj "(string \<times> jsval) list"

type_synonym obj = "(string \<times> jsval) list"

text \<open>\<open>!x\<close> is \<open>\<not> truthy x\<close>: undefined, null, false, 0 and the empty string are falsy.\<close>

fun truthy :: "jsval \<Rightarrow> bool" where
  "truthy JUndefined = False"
| "truthy JNull = False"
| "truthy (JBool b) = b"
| "truthy (JNum n) = (n \<noteq> 0)"
| "truthy (JStr s) = (s \<noteq> [])"
| "truthy (JArr xs) = True"
| "truthy (JObj kvs) = True"

text \<open>The operands for which \<open>a ?? b\<close> yields \<open>b\<close>.\<close>

fun nullish :: "jsval \<Rightarrow> bool" where
  "nullish JUndefined = True"
| "nullish JNull = True"
| "nullish v = False"

definition coalesce :: "jsval \<Rightarrow> jsval \<Rightarrow> jsval" where
  "coalesce a b = (if nullish a then b else a)"

text \<open>Property access on the body object, as the destructuring of \<open>req.body\<close> does.\<close>

definition property :: "obj \<Rightarrow> string \<Rightarrow> jsval" where
  "property b k = (case map_of b k of None \<Rightarrow> JUndefined | Some v \<Rightarrow> v)"

text \<open>
  \<open>v.length\<close>: the number of elements of an array, the length of a string, the property
  \<open>length\<close> of an object when it has one, undefined in every other case.
\<close>

fun js_length :: "jsval \<Rightarrow> jsval" where
  "js_length (JArr xs) = JNum (of_nat (length xs))"
| "js_length (JStr s) = JNum (of_nat (length s))"
| "js_length (JObj kvs) = property kvs ''length''"
| "js_length v = JUndefined"

text \<open>
  Modelled from the spec: the constant \<open>DAYS_OF_WEEK\<close> of \<open>constants/days\<close> is not part of
  the sources at hand; the specification gives the weekday domain as
  Sun, Mon, Tue, Wed, Thu, Fri, Sat.
\<close>

definition DAYS_OF_WEEK :: "jsval list" where
  "DAYS_OF_WEEK = [JStr ''Sun'', JStr ''Mon'', JStr ''Tue'', JStr ''Wed'', JStr ''Thu'',
     JStr ''Fri'', JStr ''Sat'']"

section \<open>The store\<close>

text \<open>
  Modelled from the spec: the Sequelize models \<open>Camera\<close> and \<open>Anomaly\<close> of \<open>models\<close> are not
  part of the sources at hand.  The column names are those the controller uses
  (\<open>cameraId\<close>, \<open>location\<close>, \<open>ipAddress\<close>, \<open>cameraType\<close>, \<open>organizationId\<close>, and the
  fields of an anomaly); the camera's online/offline \<open>status\<close> is taken from the
  specification's data model.
\<close>

record camera =
  cameraId :: jsval
  location :: jsval
  ipAddress :: jsval
  cameraType :: jsval
  status :: jsval
  organizationId :: nat

record anomaly =
  anomalyId :: nat
  title :: jsval
  description :: jsval
  criticality :: jsval
  modelName :: jsval
  organizationId :: nat
  startTime :: jsval
  endTime :: jsval
  daysOfWeek :: jsval
  status :: jsval

text \<open>
  The declaration of the many-to-many association between anomalies and cameras is not
  part of the sources at hand either.  The name of its join model and the names of the
  two key columns of the join table are therefore left open: they are part of the store.
\<close>

record join_model =
  model_name :: string
  foreignKey :: string
  otherKey :: string

text \<open>
  The tables: cameras, anomalies, the join table of the many-to-many association between
  them (a row is an anomaly identifier and a camera identifier), the counter from which
  the store draws the identifier of the next anomaly, and the join model.
\<close>

record db =
  cameras :: "camera list"
  anomalies :: "anomaly list"
  associations :: "(nat \<times> jsval) list"
  next_anomalyId :: nat
  through :: join_model

text \<open>
  Modelled from the spec: the status a new rule starts in (the rule's state machine goes
  from nonexistent to active); \<open>Anomaly.create\<close> is not given a status by the controller.
\<close>

definition default_status :: jsval where
  "default_status = JStr ''active''"

text \<open>
  The JSON of a camera row, and the choice of attributes made by an \<open>attributes\<close> option.
\<close>

definition camera_toJSON :: "camera \<Rightarrow> obj" where
  "camera_toJSON c =
     [(''cameraId'', cameraId c), (''location'', location c), (''ipAddress'', ipAddress c),
      (''cameraType'', cameraType c), (''status'', camera.status c),
      (''organizationId'', JNum (of_nat (camera.organizationId c)))]"

definition Camera_attributes :: "string list" where
  "Camera_attributes =
     [''cameraId'', ''location'', ''ipAddress'', ''cameraType'', ''status'', ''organizationId'']"

definition select_attributes :: "string list \<Rightarrow> obj \<Rightarrow> obj" where
  "select_attributes attrs ob = filter (\<lambda>kv. fst kv \<in> set attrs) ob"

text \<open>
  A camera that is included through the many-to-many association carries one more
  property, named after the join model: the join row that associates it with the anomaly.
  No include of the controller sets \<open>through: { attributes: [] }\<close>, which would leave it
  out.  (Timestamps of rows are not modelled, here as elsewhere.)
\<close>

definition join_row :: "join_model \<Rightarrow> nat \<Rightarrow> camera \<Rightarrow> string \<times> jsval" where
  "join_row t aid c =
     (model_name t, JObj [(foreignKey t, JNum (of_nat aid)), (otherKey t, cameraId c)])"

subsection \<open>Storage calls\<close>

text \<open>
  The storage calls are those of the mapper, as the controller uses them.  They are taken
  to complete without throwing, but for the one case described at \<open>Camera_findAll_in\<close>;
  identifiers compare by equality.
\<close>

text \<open>\<open>Camera.findAll({ where: { cameraId: { [Op.in]: cameraIds }, organizationId } })\<close>\<close>

definition Camera_findAll :: "db \<Rightarrow> jsval list \<Rightarrow> nat \<Rightarrow> camera list" where
  "Camera_findAll d cameraIds org =
     filter (\<lambda>c. cameraId c \<in> set cameraIds \<and> camera.organizationId c = org) (cameras d)"

text \<open>
  The same query when the operand of \<open>Op.in\<close> is any value, as in \<open>updateAnomaly\<close>, which
  does not check that \<open>cameraIds\<close> is an array.  The query generator of the mapper maps
  an operand with a truthy \<open>length\<close> over its elements, which throws unless the operand
  is an array; for an operand whose \<open>length\<close> is falsy it writes \<open>IN (NULL)\<close>, and the
  query finds no camera.  \<open>None\<close> is the query that throws.
\<close>

definition Camera_findAll_in :: "db \<Rightarrow> jsval \<Rightarrow> nat \<Rightarrow> camera list option" where
  "Camera_findAll_in d v org =
     (case v of
        JArr ids \<Rightarrow> Some (Camera_findAll d ids org)
      | _ \<Rightarrow> if truthy (js_length v) then None else Some [])"

text \<open>\<open>Anomaly.create({ title, description, criticality, modelName, organizationId,
  startTime, endTime, daysOfWeek })\<close>\<close>

definition Anomaly_create ::
  "db \<Rightarrow> jsval \<Rightarrow> jsval \<Rightarrow> jsval \<Rightarrow> jsval \<Rightarrow> nat \<Rightarrow> jsval \<Rightarrow> jsval \<Rightarrow> jsval \<Rightarrow> anomaly \<times> db" where
  "Anomaly_create d t de cr mn org st et dw =
     (let a = \<lparr>anomalyId = next_anomalyId d, title = t, description = de, criticality = cr,
                modelName = mn, organizationId = org, startTime = st, endTime = et,
                daysOfWeek = dw, status = default_status\<rparr>
      in (a, d\<lparr>anomalies := anomalies d @ [a], next_anomalyId := Suc (next_anomalyId d)\<rparr>))"

text \<open>
  \<open>anomaly.setCameras(cameras)\<close>: the join rows of the anomaly whose camera is not among
  the given ones are deleted, and a row is inserted for each given camera that has none.
\<close>

definition setCameras :: "db \<Rightarrow> nat \<Rightarrow> camera list \<Rightarrow> db" where
  "setCameras d aid cams =
     (let current = map snd (filter (\<lambda>r. fst r = aid) (associations d));
          kept = filter (\<lambda>r. fst r \<noteq> aid \<or> snd r \<in> set (map cameraId cams)) (associations d);
          added = map (\<lambda>c. (aid, cameraId c)) (filter (\<lambda>c. cameraId c \<notin> set current) cams)
      in d\<lparr>associations := kept @ added\<rparr>)"

text \<open>The cameras joined to an anomaly by \<open>include: [{ model: Camera, attributes }]\<close>.\<close>

definition include_Camera :: "db \<Rightarrow> nat \<Rightarrow> string list \<Rightarrow> obj list" where
  "include_Camera d aid attrs =
     map (\<lambda>c. select_attributes attrs (camera_toJSON c) @ [join_row (through d) aid c])
       (filter (\<lambda>c. (aid, cameraId c) \<in> set (associations d)) (cameras d))"

definition Anomaly_findByPk :: "db \<Rightarrow> nat \<Rightarrow> string list \<Rightarrow> (anomaly \<times> obj list) option" where
  "Anomaly_findByPk d aid attrs =
     map_option (\<lambda>a. (a, include_Camera d (anomalyId a) attrs))
       (find (\<lambda>a. anomalyId a = aid) (anomalies d))"

definition Anomaly_findAll :: "db \<Rightarrow> nat \<Rightarrow> string list \<Rightarrow> (anomaly \<times> obj list) list" where
  "Anomaly_findAll d org attrs =
     map (\<lambda>a. (a, include_Camera d (anomalyId a) attrs))
       (filter (\<lambda>a. organizationId a = org) (anomalies d))"

text \<open>\<open>Anomaly.findOne({ where: { anomalyId, organizationId } })\<close>\<close>

definition Anomaly_findOne :: "db \<Rightarrow> nat \<Rightarrow> nat \<Rightarrow> anomaly option" where
  "Anomaly_findOne d aid org =
     find (\<lambda>a. anomalyId a = aid \<and> organizationId a = org) (anomalies d)"

definition save :: "db \<Rightarrow> anomaly \<Rightarrow> db" where
  "save d a = d\<lparr>anomalies := map (\<lambda>r. if anomalyId r = anomalyId a then a else r) (anomalies d)\<rparr>"

definition destroy :: "db \<Rightarrow> anomaly \<Rightarrow> db" where
  "destroy d a = d\<lparr>anomalies := filter (\<lambda>r. anomalyId r \<noteq> anomalyId a) (anomalies d)\<rparr>"

section \<open>Requests, responses and traces\<close>

text \<open>
  A request carries the organization of the authenticated user, the anomaly identifier
  of the route (when the route has one) and the body.
\<close>

record request =
  user_organizationId :: nat
  params_anomalyId :: nat
  body :: obj

text \<open>
  The JSON sent back: \<open>{ error }\<close>, \<open>{ message }\<close>, \<open>{ message, error }\<close> of a caught
  exception, an anomaly with its cameras, a list of them, or \<open>{ message, anomaly }\<close>.
\<close>

datatype payload =
    Error string
  | Message string
  | Failure string
  | Rule "(anomaly \<times> obj list) option"
  | Rules "(anomaly \<times> obj list) list"
  | Updated string "(anomaly \<times> obj list) option"

datatype response = Response (status_code: nat) (json: payload)

datatype call =
    CameraFindAll
  | AnomalyCreate
  | SetCameras
  | AnomalyFindByPk
  | AnomalyFindAll
  | AnomalyFindOne
  | Save
  | Destroy

text \<open>
  What a handler leaves behind: the response, the store after the call, and the storage
  calls it made, in order, each with the store as it was when the call had completed.
\<close>

record outcome =
  res :: response
  store :: db
  trace :: "(call \<times> db) list"

section \<open>The handlers of the anomaly controller\<close>

text \<open>
  Each handler is the body of its \<open>try\<close> block, one branch for each \<open>return\<close>.  The
  \<open>catch\<close> block (status 500) is entered when a storage call throws; with storage calls
  that complete it is entered only where the query of \<open>updateAnomaly\<close> throws.
\<close>

definition addAnomaly :: "request \<Rightarrow> db \<Rightarrow> outcome" where
  "addAnomaly req d =
     (let organizationId = user_organizationId req;
          title = property (body req) ''title'';
          description = property (body req) ''description'';
          criticality = property (body req) ''criticality'';
          modelName = property (body req) ''modelName'';
          cameraIds = property (body req) ''cameraIds'';
          startTime = property (body req) ''startTime'';
          endTime = property (body req) ''endTime'';
          daysOfWeek = property (body req) ''daysOfWeek''
      in
      if \<not> truthy title \<or> \<not> truthy description \<or> \<not> truthy modelName \<or> \<not> truthy cameraIds
         \<or> \<not> truthy startTime \<or> \<not> truthy endTime \<or> \<not> truthy daysOfWeek
      then \<lparr>res = Response 400 (Error ''Missing required fields''), store = d, trace = []\<rparr>
      else
        (case cameraIds of
           JArr ids \<Rightarrow>
             if length ids = 0
             then \<lparr>res = Response 400 (Error ''cameraIds must be a non-empty array''),
                   store = d, trace = []\<rparr>
             else
               (case daysOfWeek of
                  JArr days \<Rightarrow>
                    if \<not> list_all (\<lambda>day. day \<in> set DAYS_OF_WEEK) days
                    then \<lparr>res = Response 400 (Error ''Invalid day values''),
                          store = d, trace = []\<rparr>
                    else
                      (let cameras = Camera_findAll d ids organizationId in
                       if length cameras \<noteq> length ids
                       then \<lparr>res = Response 404
                                    (Error ''One or more cameras not found or access denied''),
                             store = d, trace = [(CameraFindAll, d)]\<rparr>
                       else
                         (let (anomaly, d1) =
                                Anomaly_create d title description criticality modelName
                                  organizationId startTime endTime daysOfWeek;
                              d2 = setCameras d1 (anomalyId anomaly) cameras;
                              createdAnomaly =
                                Anomaly_findByPk d2 (anomalyId anomaly) Camera_attributes
                          in \<lparr>res = Response 201 (Rule createdAnomaly), store = d2,
                               trace = [(CameraFindAll, d), (AnomalyCreate, d1),
                                        (SetCameras, d2), (AnomalyFindByPk, d2)]\<rparr>))
                | _ \<Rightarrow> \<lparr>res = Response 400 (Error ''daysOfWeek must be an array''),
                        store = d, trace = []\<rparr>)
         | _ \<Rightarrow> \<lparr>res = Response 400 (Error ''cameraIds must be a non-empty array''),
                 store = d, trace = []\<rparr>))"

definition getAllAnomalies :: "request \<Rightarrow> db \<Rightarrow> outcome" where
  "getAllAnomalies req d =
     (let organizationId = user_organizationId req;
          anomalies = Anomaly_findAll d organizationId
                        [''cameraId'', ''location'', ''ipAddress'', ''cameraType'']
      in \<lparr>res = Response 200 (Rules anomalies), store = d, trace = [(AnomalyFindAll, d)]\<rparr>)"

text \<open>
  In \<open>updateAnomaly\<close> a truthy \<open>cameraIds\<close> is handed to \<open>Op.in\<close> without a check that it
  is an array.  When the query throws, the handler's \<open>catch\<close> answers 500 before anything
  is written.  Otherwise the count check compares the number of cameras found with
  \<open>cameraIds.length\<close> by \<open>!==\<close>: for a number, a boolean or an object without a length
  of 0 it fails (404), and for an object whose \<open>length\<close> is 0 it passes with no camera
  found, so that the handler goes on to \<open>setCameras([])\<close>.
\<close>

definition updateAnomaly :: "request \<Rightarrow> db \<Rightarrow> outcome" where
  "updateAnomaly req d =
     (let anomalyId = params_anomalyId req;
          title = property (body req) ''title'';
          description = property (body req) ''description'';
          criticality = property (body req) ''criticality'';
          modelName = property (body req) ''modelName'';
          status = property (body req) ''status'';
          cameraIds = property (body req) ''cameraIds'';
          organizationId = user_organizationId req
      in
      case Anomaly_findOne d anomalyId organizationId of
        None \<Rightarrow>
          \<lparr>res = Response 404
                   (Message ''Anomaly not found or does not belong to your organization''),
           store = d, trace = [(AnomalyFindOne, d)]\<rparr>
      | Some anomaly \<Rightarrow>
          (let bound =
                 (if truthy cameraIds then
                    (case Camera_findAll_in d cameraIds organizationId of
                       None \<Rightarrow>
                         Inl \<lparr>res = Response 500 (Failure ''Failed to update anomaly''),
                              store = d,
                              trace = [(AnomalyFindOne, d), (CameraFindAll, d)]\<rparr>
                     | Some found \<Rightarrow>
                         (let cameras = found in
                          if JNum (of_nat (length cameras)) \<noteq> js_length cameraIds
                          then Inl \<lparr>res = Response 404
                                     (Message ''One or more cameras not found or access denied''),
                                    store = d,
                                    trace = [(AnomalyFindOne, d), (CameraFindAll, d)]\<rparr>
                          else
                            (let d1 = setCameras d (anomaly.anomalyId anomaly) cameras
                             in Inr (d1, [(AnomalyFindOne, d), (CameraFindAll, d),
                                          (SetCameras, d1)]))))
                  else Inr (d, [(AnomalyFindOne, d)]))
           in
           case bound of
             Inl out \<Rightarrow> out
           | Inr (d1, tr) \<Rightarrow>
               (let anomaly' = anomaly
                      \<lparr>title := coalesce title (anomaly.title anomaly),
                       description := coalesce description (anomaly.description anomaly),
                       criticality := coalesce criticality (anomaly.criticality anomaly),
                       modelName := coalesce modelName (anomaly.modelName anomaly),
                       status := coalesce status (anomaly.status anomaly)\<rparr>;
                    d2 = save d1 anomaly';
                    updatedAnomaly = Anomaly_findByPk d2 anomalyId Camera_attributes
                in \<lparr>res = Response 200 (Updated ''Anomaly updated successfully'' updatedAnomaly),
                     store = d2,
                     trace = tr @ [(Save, d2), (AnomalyFindByPk, d2)]\<rparr>)))"

definition deleteAnomaly :: "request \<Rightarrow> db \<Rightarrow> outcome" where
  "deleteAnomaly req d =
     (let anomalyId = params_anomalyId req;
          organizationId = user_organizationId req
      in
      case Anomaly_findOne d anomalyId organizationId of
        None \<Rightarrow>
          \<lparr>res = Response 404
                   (Message ''Anomaly not found or does not belong to your organization''),
           store = d, trace = [(AnomalyFindOne, d)]\<rparr>
      | Some anomaly \<Rightarrow>
          (let d1 = setCameras d (anomaly.anomalyId anomaly) [];
               d2 = destroy d1 anomaly
           in \<lparr>res = Response 200 (Message ''Anomaly deleted successfully''),
                store = d2,
                trace = [(AnomalyFindOne, d), (SetCameras, d1), (Destroy, d2)]\<rparr>))"

section \<open>Well-formed stores\<close>

text \<open>
  The constraints the store keeps by itself: \<open>cameraId\<close> and \<open>anomalyId\<close> are primary
  keys, a join row occurs once, the identifier counter lies above every anomaly
  identifier in use, and a join row refers to an anomaly and to a camera that exist.
\<close>

definition db_ok :: "db \<Rightarrow> bool" where
  "db_ok d =
     (distinct (map cameraId (cameras d)) \<and>
      distinct (map anomalyId (anomalies d)) \<and>
      distinct (associations d) \<and>
      list_all (\<lambda>a. anomalyId a < next_anomalyId d) (anomalies d) \<and>
      list_all (\<lambda>r. fst r \<in> set (map anomalyId (anomalies d)) \<and>
                     snd r \<in> set (map cameraId (cameras d))) (associations d))"

text \<open>The camera identifiers a rule is associated with, in the order of the join table.\<close>

definition cameras_of :: "db \<Rightarrow> nat \<Rightarrow> jsval list" where
  "cameras_of d aid = map snd (filter (\<lambda>r. fst r = aid) (associations d))"

text \<open>The assignments \<open>anomaly.f = f ?? anomaly.f\<close> of \<open>updateAnomaly\<close>, for a body \<open>b\<close>.\<close>

definition assigned :: "obj \<Rightarrow> anomaly \<Rightarrow> anomaly" where
  "assigned b a = a
     \<lparr>title := coalesce (property b ''title'') (title a),
      description := coalesce (property b ''description'') (description a),
      criticality := coalesce (property b ''criticality'') (criticality a),
      modelName := coalesce (property b ''modelName'') (modelName a),
      status := coalesce (property b ''status'') (status a)\<rparr>"

text \<open>The schedule of every stored rule.\<close>

definition schedules :: "db \<Rightarrow> (nat \<times> jsval \<times> jsval \<times> jsval) list" where
  "schedules d = map (\<lambda>r. (anomalyId r, startTime r, endTime r, daysOfWeek r)) (anomalies d)"

text \<open>The public attributes of a camera, as objects of a rule listing carry them.\<close>

definition public_camera :: "camera \<Rightarrow> obj" where
  "public_camera c =
     [(''cameraId'', cameraId c), (''location'', location c), (''ipAddress'', ipAddress c),
      (''cameraType'', cameraType c)]"

text \<open>The fields of a create request that the first check of \<open>addAnomaly\<close> requires.\<close>

definition required_fields :: "string list" where
  "required_fields =
     [''title'', ''description'', ''modelName'', ''cameraIds'', ''startTime'', ''endTime'',
      ''daysOfWeek'']"

section \<open>A small store and some requests\<close>

text \<open>
  Organization 7 owns cameras 1 and 2, organization 3 owns camera 99.  Rule 5 belongs to
  organization 7 and watches camera 1; rule 6 belongs to organization 3 and watches
  camera 99.  The join model is given a name and key columns for the sake of the example.
\<close>

definition cam1 :: camera where
  "cam1 = \<lparr>cameraId = JNum 1, location = JStr ''Gate'', ipAddress = JStr ''10.0.0.1'',
           cameraType = JStr ''dome'', status = JStr ''online'', organizationId = 7\<rparr>"

definition cam2 :: camera where
  "cam2 = \<lparr>cameraId = JNum 2, location = JStr ''Yard'', ipAddress = JStr ''10.0.0.2'',
           cameraType = JStr ''bullet'', status = JStr ''offline'', organizationId = 7\<rparr>"

definition cam99 :: camera where
  "cam99 = \<lparr>cameraId = JNum 99, location = JStr ''Dock'', ipAddress = JStr ''10.0.9.9'',
            cameraType = JStr ''dome'', status = JStr ''online'', organizationId = 3\<rparr>"

definition rule5 :: anomaly where
  "rule5 = \<lparr>anomalyId = 5, title = JStr ''Loitering'', description = JStr ''At the gate'',
            criticality = JStr ''low'', modelName = JStr ''loiter-v1'', organizationId = 7,
            startTime = JStr ''22:00'', endTime = JStr ''06:00'',
            daysOfWeek = JArr [JStr ''Sat'', JStr ''Sun''], status = JStr ''active''\<rparr>"

definition rule6 :: anomaly where
  "rule6 = \<lparr>anomalyId = 6, title = JStr ''Intrusion'', description = JStr ''At the dock'',
            criticality = JStr ''high'', modelName = JStr ''intrude-v2'', organizationId = 3,
            startTime = JStr ''08:00'', endTime = JStr ''18:00'',
            daysOfWeek = JArr [JStr ''Mon''], status = JStr ''active''\<rparr>"

definition db0 :: db where
  "db0 = \<lparr>cameras = [cam1, cam2, cam99], anomalies = [rule5, rule6],
          associations = [(5, JNum 1), (6, JNum 99)], next_anomalyId = 7,
          through = \<lparr>model_name = ''AnomalyCameras'', foreignKey = ''anomalyId'',
                     otherKey = ''cameraId''\<rparr>\<rparr>"

text \<open>A complete create request of organization 7 for the given camera identifiers.\<close>

definition create_body :: "jsval list \<Rightarrow> obj" where
  "create_body ids =
     [(''title'', JStr ''Crowd''), (''description'', JStr ''Crowd at night''),
      (''criticality'', JStr ''high''), (''modelName'', JStr ''crowd-v3''),
      (''cameraIds'', JArr ids), (''startTime'', JStr ''22:00''), (''endTime'', JStr ''06:00''),
      (''daysOfWeek'', JArr [JStr ''Fri'', JStr ''Sat''])]"

definition req7 :: "nat \<Rightarrow> obj \<Rightarrow> request" where
  "req7 aid b = \<lparr>user_organizationId = 7, params_anomalyId = aid, body = b\<rparr>"

section \<open>Auxiliary facts\<close>

subsection \<open>Reading the body, counting resolved cameras\<close>

lemma property_Cons: "property ((k, v) # b) k' = (if k = k' then v else property b k')"
  by (simp add: property_def)

lemma length_filter_card:
  assumes "distinct (map f xs)"
  shows "length (filter (\<lambda>x. f x \<in> S \<and> P x) xs) = card (f ` {x \<in> set xs. f x \<in> S \<and> P x})"
proof -
  have d: "distinct (map f (filter (\<lambda>x. f x \<in> S \<and> P x) xs))"
    using assms by (simp add: distinct_map_filter)
  have "length (filter (\<lambda>x. f x \<in> S \<and> P x) xs) = length (map f (filter (\<lambda>x. f x \<in> S \<and> P x) xs))"
    by simp
  also have "\<dots> = card (set (map f (filter (\<lambda>x. f x \<in> S \<and> P x) xs)))"
    using d by (simp only: distinct_card)
  also have "set (map f (filter (\<lambda>x. f x \<in> S \<and> P x) xs)) = f ` {x \<in> set xs. f x \<in> S \<and> P x}"
    by auto
  finally show ?thesis .
qed

lemma Camera_findAll_count:
  assumes "distinct (map cameraId (cameras d))"
  shows "(length (Camera_findAll d ids org) = length ids) \<longleftrightarrow>
         (distinct ids \<and> (\<forall>i\<in>set ids. \<exists>c\<in>set (cameras d). cameraId c = i \<and> camera.organizationId c = org))"
proof -
  let ?M = "cameraId ` {c \<in> set (cameras d). cameraId c \<in> set ids \<and> camera.organizationId c = org}"
  have len: "length (Camera_findAll d ids org) = card ?M"
    unfolding Camera_findAll_def using assms by (rule length_filter_card)
  have sub: "?M \<subseteq> set ids" by auto
  have c1: "card ?M \<le> card (set ids)" using sub by (simp add: card_mono)
  have c2: "card (set ids) \<le> length ids" by (rule card_length)
  show ?thesis
  proof
    assume eq: "length (Camera_findAll d ids org) = length ids"
    with len c1 c2 have e1: "card (set ids) = length ids" and e2: "card ?M = card (set ids)" by auto
    from e1 have "distinct ids" by (simp add: card_distinct)
    moreover from e2 sub have "?M = set ids" by (simp add: card_subset_eq)
    then have "\<forall>i\<in>set ids. \<exists>c\<in>set (cameras d). cameraId c = i \<and> camera.organizationId c = org"
    proof (intro ballI)
      fix i
      assume "?M = set ids" and "i \<in> set ids"
      then have "i \<in> ?M" by simp
      then show "\<exists>c\<in>set (cameras d). cameraId c = i \<and> camera.organizationId c = org"
        by auto
    qed
    ultimately show "distinct ids \<and> (\<forall>i\<in>set ids. \<exists>c\<in>set (cameras d). cameraId c = i \<and> camera.organizationId c = org)"
      by simp
  next
    assume h: "distinct ids \<and> (\<forall>i\<in>set ids. \<exists>c\<in>set (cameras d). cameraId c = i \<and> camera.organizationId c = org)"
    then have "set ids \<subseteq> ?M" by force
    with sub have "?M = set ids" by auto
    with len h show "length (Camera_findAll d ids org) = length ids"
      by (simp add: distinct_card)
  qed
qed

lemma db0_ok: "db_ok db0"
  by (simp add: db_ok_def db0_def cam1_def cam2_def cam99_def rule5_def rule6_def)

subsection \<open>The branches of \<open>addAnomaly\<close>\<close>

lemma required_all:
  "list_all (\<lambda>k. truthy (property b k)) required_fields \<longleftrightarrow>
     (truthy (property b ''title'') \<and> truthy (property b ''description'') \<and>
      truthy (property b ''modelName'') \<and> truthy (property b ''cameraIds'') \<and>
      truthy (property b ''startTime'') \<and> truthy (property b ''endTime'') \<and>
      truthy (property b ''daysOfWeek''))"
  by (simp add: required_fields_def)

lemma addAnomaly_missing:
  assumes "\<not> list_all (\<lambda>k. truthy (property (body req) k)) required_fields"
  shows "addAnomaly req d =
           \<lparr>res = Response 400 (Error ''Missing required fields''), store = d, trace = []\<rparr>"
  using assms unfolding required_all addAnomaly_def Let_def by auto


lemma addAnomaly_daysOfWeek_shape:
  assumes "list_all (\<lambda>k. truthy (property (body req) k)) required_fields"
    and "property (body req) ''cameraIds'' = JArr ids" and "ids \<noteq> []"
    and "\<forall>days. property (body req) ''daysOfWeek'' \<noteq> JArr days"
  shows "addAnomaly req d =
           \<lparr>res = Response 400 (Error ''daysOfWeek must be an array''), store = d, trace = []\<rparr>"
  using assms unfolding required_all addAnomaly_def Let_def
  by (cases "property (body req) ''daysOfWeek''") auto


lemma addAnomaly_unresolved:
  assumes "list_all (\<lambda>k. truthy (property (body req) k)) required_fields"
    and "property (body req) ''cameraIds'' = JArr ids" and "ids \<noteq> []"
    and "property (body req) ''daysOfWeek'' = JArr days"
    and "list_all (\<lambda>day. day \<in> set DAYS_OF_WEEK) days"
    and "length (Camera_findAll d ids (user_organizationId req)) \<noteq> length ids"
  shows "addAnomaly req d =
           \<lparr>res = Response 404 (Error ''One or more cameras not found or access denied''),
            store = d, trace = [(CameraFindAll, d)]\<rparr>"
  using assms unfolding required_all addAnomaly_def Let_def by auto

lemma addAnomaly_resolved:
  assumes "list_all (\<lambda>k. truthy (property (body req) k)) required_fields"
    and "property (body req) ''cameraIds'' = JArr ids" and "ids \<noteq> []"
    and "property (body req) ''daysOfWeek'' = JArr days"
    and "list_all (\<lambda>day. day \<in> set DAYS_OF_WEEK) days"
    and "length (Camera_findAll d ids (user_organizationId req)) = length ids"
    and "Anomaly_create d (property (body req) ''title'') (property (body req) ''description'')
           (property (body req) ''criticality'') (property (body req) ''modelName'')
           (user_organizationId req) (property (body req) ''startTime'')
           (property (body req) ''endTime'') (property (body req) ''daysOfWeek'') = (a, d1)"
  shows "addAnomaly req d =
           \<lparr>res = Response 201
                    (Rule (Anomaly_findByPk
                       (setCameras d1 (anomalyId a) (Camera_findAll d ids (user_organizationId req)))
                       (anomalyId a) Camera_attributes)),
            store = setCameras d1 (anomalyId a) (Camera_findAll d ids (user_organizationId req)),
            trace = [(CameraFindAll, d), (AnomalyCreate, d1),
                     (SetCameras, setCameras d1 (anomalyId a)
                        (Camera_findAll d ids (user_organizationId req))),
                     (AnomalyFindByPk, setCameras d1 (anomalyId a)
                        (Camera_findAll d ids (user_organizationId req)))]\<rparr>"
  using assms unfolding required_all addAnomaly_def Let_def by auto

subsection \<open>Rebinding the cameras of a rule\<close>

lemma setCameras_frame [simp]:
  "cameras (setCameras d aid cams) = cameras d"
  "anomalies (setCameras d aid cams) = anomalies d"
  "next_anomalyId (setCameras d aid cams) = next_anomalyId d"
  "through (setCameras d aid cams) = through d"
  by (simp_all add: setCameras_def Let_def)

lemma set_associations_setCameras:
  "set (associations (setCameras d aid cams)) =
     {r \<in> set (associations d). fst r \<noteq> aid} \<union> (\<lambda>c. (aid, cameraId c)) ` set cams"
  by (auto simp: setCameras_def Let_def image_iff)

lemma set_cameras_of_setCameras:
  "set (cameras_of (setCameras d aid cams) aid) = cameraId ` set cams"
  by (auto simp: cameras_of_def set_associations_setCameras[unfolded set_eq_iff] image_iff
      intro!: bexI)

lemma cameras_of_setCameras_other:
  assumes "aid' \<noteq> aid"
  shows "cameras_of (setCameras d aid cams) aid' = cameras_of d aid'"
proof -
  have "filter (\<lambda>r. fst r = aid') (associations (setCameras d aid cams)) =
        filter (\<lambda>r. fst r = aid') (associations d)"
    using assms by (auto simp: setCameras_def Let_def intro: filter_cong)
  then show ?thesis by (simp add: cameras_of_def)
qed

lemma distinct_associations_setCameras:
  assumes "distinct (associations d)" and "distinct (map cameraId cams)"
  shows "distinct (associations (setCameras d aid cams))"
proof -
  have "distinct (map (\<lambda>c. (aid, cameraId c))
          (filter (\<lambda>c. cameraId c \<notin> set (map snd (filter (\<lambda>r. fst r = aid) (associations d)))) cams))"
  proof -
    have "distinct (map cameraId
            (filter (\<lambda>c. cameraId c \<notin> set (map snd (filter (\<lambda>r. fst r = aid) (associations d)))) cams))"
      using assms(2) by (rule distinct_map_filter)
    then have "distinct (map (\<lambda>x. (aid, x)) (map cameraId
            (filter (\<lambda>c. cameraId c \<notin> set (map snd (filter (\<lambda>r. fst r = aid) (associations d)))) cams)))"
      by (simp add: distinct_map inj_on_def del: map_map)
    then show ?thesis by (simp add: comp_def)
  qed
  then show ?thesis
    using assms(1) by (auto simp: setCameras_def Let_def image_iff)
qed

lemma distinct_cameras_of:
  "distinct (associations d) \<Longrightarrow> distinct (cameras_of d aid)"
proof -
  assume "distinct (associations d)"
  then have "distinct (filter (\<lambda>r. fst r = aid) (associations d))" by simp
  moreover have "inj_on snd (set (filter (\<lambda>r. fst r = aid) (associations d)))"
    by (auto simp: inj_on_def)
  ultimately show ?thesis by (simp add: cameras_of_def distinct_map)
qed

lemma distinct_map_filter_mem:
  assumes "distinct (map f xs)"
  shows "filter (\<lambda>x. f x \<in> f ` set (filter P xs)) xs = filter P xs"
proof (rule filter_cong[OF refl])
  fix x assume x: "x \<in> set xs"
  from assms have inj: "inj_on f (set xs)" by (simp add: distinct_map)
  show "(f x \<in> f ` set (filter P xs)) = P x"
  proof
    assume "f x \<in> f ` set (filter P xs)"
    then obtain y where y: "y \<in> set xs" "P y" "f x = f y" by auto
    with inj x have "x = y" by (auto dest: inj_onD)
    with y show "P x" by simp
  next
    assume "P x" with x show "f x \<in> f ` set (filter P xs)" by auto
  qed
qed

lemma select_all_attributes [simp]:
  "select_attributes Camera_attributes (camera_toJSON c) = camera_toJSON c"
  by (simp add: select_attributes_def Camera_attributes_def camera_toJSON_def)

lemma include_Camera_setCameras:
  assumes "distinct (map cameraId (cameras d))"
    and "cameras d1 = cameras d"
  shows "include_Camera (setCameras d1 aid (Camera_findAll d ids org)) aid attrs =
           map (\<lambda>c. select_attributes attrs (camera_toJSON c) @ [join_row (through d1) aid c])
             (Camera_findAll d ids org)"
proof -
  have mem: "\<And>c. ((aid, cameraId c) \<in> set (associations (setCameras d1 aid (Camera_findAll d ids org))))
          = (cameraId c \<in> cameraId ` set (Camera_findAll d ids org))"
    by (auto simp: set_associations_setCameras image_iff)
  have "filter (\<lambda>c. cameraId c \<in> cameraId ` set (Camera_findAll d ids org)) (cameras d)
          = Camera_findAll d ids org"
    unfolding Camera_findAll_def using assms(1) by (rule distinct_map_filter_mem)
  then show ?thesis
    by (simp add: include_Camera_def mem assms(2))
qed

lemma find_append_fresh:
  assumes "list_all (\<lambda>a. f a < (n::nat)) xs" and "f x = n"
  shows "find (\<lambda>a. f a = n) (xs @ [x]) = Some x"
  using assms by (induction xs) auto

lemma nullish_not_truthy: "nullish v \<Longrightarrow> \<not> truthy v"
  by (cases v) auto

lemma Camera_findAll_owned:
  "list_all (\<lambda>c. cameraId c \<in> set ids \<and> camera.organizationId c = org) (Camera_findAll d ids org)"
  by (simp add: Camera_findAll_def list_all_iff)

lemma Anomaly_findByPk_created:
  assumes "db_ok d"
    and "Anomaly_create d t de cr mn org st et dw = (a, d1)"
  shows "Anomaly_findByPk (setCameras d1 (anomalyId a) (Camera_findAll d ids org')) (anomalyId a)
           Camera_attributes =
         Some (a, map (\<lambda>c. camera_toJSON c @ [join_row (through d) (anomalyId a) c])
                    (Camera_findAll d ids org'))"
proof -
  from assms(2) have a: "anomalyId a = next_anomalyId d"
    and d1: "d1 = d\<lparr>anomalies := anomalies d @ [a], next_anomalyId := Suc (next_anomalyId d)\<rparr>"
    by (auto simp: Anomaly_create_def Let_def)
  from assms(1) have fresh: "list_all (\<lambda>r. anomalyId r < next_anomalyId d) (anomalies d)"
    and uniq: "distinct (map cameraId (cameras d))"
    by (simp_all add: db_ok_def)
  have "find (\<lambda>r. anomalyId r = next_anomalyId d) (anomalies d @ [a]) = Some a"
    using fresh a by (rule find_append_fresh)
  moreover have "cameras d1 = cameras d" "through d1 = through d" by (simp_all add: d1)
  ultimately show ?thesis
    using include_Camera_setCameras[OF uniq, of d1 "anomalyId a" ids org' Camera_attributes]
    by (simp add: Anomaly_findByPk_def a d1)
qed

lemma db0_findAll_1_2: "Camera_findAll db0 [JNum 1, JNum 2] 7 = [cam1, cam2]"
  by (simp add: Camera_findAll_def db0_def cam1_def cam2_def cam99_def)


section \<open>Creating a rule\<close>

text \<open>
  Claim C1.  A create request that passes every check of the handler (the required fields
  are truthy, \<open>cameraIds\<close> is a non-empty array, \<open>daysOfWeek\<close> is an array of weekdays of
  the domain, and the camera lookup returns as many cameras as identifiers were
  requested) is answered with status 201, and the cameras of the returned rule are exactly
  the cameras the lookup resolved, each with the join row that associates it with the new
  rule: as many as requested, their identifiers are the requested ones, each is owned by
  the acting organization, and these are the cameras the stored rule is associated with.
  The store is well-formed and its calls succeed.
\<close>

theorem create_returns_resolved_cameras:
  assumes "db_ok d"
    and "list_all (\<lambda>k. truthy (property (body req) k)) required_fields"
    and "property (body req) ''cameraIds'' = JArr ids" and "ids \<noteq> []"
    and "property (body req) ''daysOfWeek'' = JArr days"
    and "list_all (\<lambda>day. day \<in> set DAYS_OF_WEEK) days"
    and "length (Camera_findAll d ids (user_organizationId req)) = length ids"
  shows "res (addAnomaly req d) =
           Response 201
             (Rule (Some
                (fst (Anomaly_create d (property (body req) ''title'')
                        (property (body req) ''description'')
                        (property (body req) ''criticality'')
                        (property (body req) ''modelName'') (user_organizationId req)
                        (property (body req) ''startTime'') (property (body req) ''endTime'')
                        (property (body req) ''daysOfWeek'')),
                 map (\<lambda>c. camera_toJSON c @ [join_row (through d) (next_anomalyId d) c])
                   (Camera_findAll d ids (user_organizationId req)))))
       \<and> length (map (\<lambda>c. camera_toJSON c @ [join_row (through d) (next_anomalyId d) c])
                  (Camera_findAll d ids (user_organizationId req))) = length ids
       \<and> cameraId ` set (Camera_findAll d ids (user_organizationId req)) = set ids
       \<and> list_all (\<lambda>c. camera.organizationId c = user_organizationId req)
            (Camera_findAll d ids (user_organizationId req))
       \<and> set (cameras_of (store (addAnomaly req d)) (next_anomalyId d)) = set ids"
proof -
  let ?org = "user_organizationId req"
  let ?cams = "Camera_findAll d ids ?org"
  obtain a d1 where cr:
    "Anomaly_create d (property (body req) ''title'') (property (body req) ''description'')
       (property (body req) ''criticality'') (property (body req) ''modelName'') ?org
       (property (body req) ''startTime'') (property (body req) ''endTime'')
       (property (body req) ''daysOfWeek'') = (a, d1)"
    by (cases "Anomaly_create d (property (body req) ''title'') (property (body req) ''description'')
       (property (body req) ''criticality'') (property (body req) ''modelName'') ?org
       (property (body req) ''startTime'') (property (body req) ''endTime'')
       (property (body req) ''daysOfWeek'')") 
  have a: "anomalyId a = next_anomalyId d"
    using cr by (auto simp: Anomaly_create_def Let_def)
  note out = addAnomaly_resolved[OF assms(2-7) cr]
  have uniq: "distinct (map cameraId (cameras d))"
    using assms(1) by (simp add: db_ok_def)
  have ids: "distinct ids \<and>
      (\<forall>i\<in>set ids. \<exists>c\<in>set (cameras d). cameraId c = i \<and> camera.organizationId c = ?org)"
    using Camera_findAll_count[OF uniq, of ids ?org] assms(7) by simp
  have mem: "cameraId ` set ?cams = set ids"
    using ids by (auto simp: Camera_findAll_def image_iff)
  have "res (addAnomaly req d) = Response 201 (Rule (Some (a,
          map (\<lambda>c. camera_toJSON c @ [join_row (through d) (next_anomalyId d) c]) ?cams)))"
    by (simp add: out Anomaly_findByPk_created[OF assms(1) cr] a[symmetric])
  moreover have "list_all (\<lambda>c. camera.organizationId c = ?org) ?cams"
    by (simp add: Camera_findAll_def list_all_iff)
  moreover have "set (cameras_of (store (addAnomaly req d)) (next_anomalyId d)) = set ids"
    by (simp add: out a[symmetric] set_cameras_of_setCameras mem)
  ultimately show ?thesis
    using assms(7) mem cr by simp
qed


theorem create_returns_resolved_cameras_witness:
  "db_ok db0
   \<and> list_all (\<lambda>k. truthy (property (create_body [JNum 1, JNum 2]) k)) required_fields
   \<and> length (Camera_findAll db0 [JNum 1, JNum 2] 7) = length [JNum 1, JNum (2::rat)]
   \<and> res (addAnomaly (req7 0 (create_body [JNum 1, JNum 2])) db0) =
       Response 201
         (Rule (Some
            (\<lparr>anomalyId = 7, title = JStr ''Crowd'', description = JStr ''Crowd at night'',
               criticality = JStr ''high'', modelName = JStr ''crowd-v3'', organizationId = 7,
               startTime = JStr ''22:00'', endTime = JStr ''06:00'',
               daysOfWeek = JArr [JStr ''Fri'', JStr ''Sat''], status = JStr ''active''\<rparr>,
             [camera_toJSON cam1 @
                [(''AnomalyCameras'', JObj [(''anomalyId'', JNum 7), (''cameraId'', JNum 1)])],
              camera_toJSON cam2 @
                [(''AnomalyCameras'', JObj [(''anomalyId'', JNum 7), (''cameraId'', JNum 2)])]])))
   \<and> set (cameras_of (store (addAnomaly (req7 0 (create_body [JNum 1, JNum 2])) db0)) 7)
       = {JNum 1, JNum 2}"
proof -
  have h1: "db_ok db0" by (rule db0_ok)
  have h2: "list_all (\<lambda>k. truthy (property (body (req7 0 (create_body [JNum 1, JNum 2]))) k))
              required_fields"
    by (simp add: required_fields_def req7_def create_body_def property_def)
  have h3: "property (body (req7 0 (create_body [JNum 1, JNum 2]))) ''cameraIds''
              = JArr [JNum 1, JNum 2]"
    by (simp add: req7_def create_body_def property_def)
  have h4: "[JNum 1, JNum (2::rat)] \<noteq> []" by simp
  have h5: "property (body (req7 0 (create_body [JNum 1, JNum 2]))) ''daysOfWeek''
              = JArr [JStr ''Fri'', JStr ''Sat'']"
    by (simp add: req7_def create_body_def property_def)
  have h6: "list_all (\<lambda>day. day \<in> set DAYS_OF_WEEK) [JStr ''Fri'', JStr ''Sat'']"
    by (simp add: DAYS_OF_WEEK_def)
  have h7: "length (Camera_findAll db0 [JNum 1, JNum 2]
              (user_organizationId (req7 0 (create_body [JNum 1, JNum 2])))) = length [JNum 1, JNum (2::rat)]"
    by (simp add: req7_def db0_findAll_1_2)
  have nxt: "next_anomalyId db0 = 7" by (simp add: db0_def)
  have jm: "through db0 = \<lparr>model_name = ''AnomalyCameras'', foreignKey = ''anomalyId'',
                            otherKey = ''cameraId''\<rparr>" by (simp add: db0_def)
  have ids: "cameraId cam1 = JNum 1" "cameraId cam2 = JNum 2" by (simp_all add: cam1_def cam2_def)
  show ?thesis
    using create_returns_resolved_cameras[OF h1 h2 h3 h4 h5 h6 h7] h1 h2 h7
    by (simp add: req7_def create_body_def property_def db0_findAll_1_2 Anomaly_create_def
          default_status_def nxt jm ids join_row_def Let_def)
qed

section \<open>Validation of a create request\<close>

lemma addAnomaly_status_ignores_criticality:
  "status_code (res (addAnomaly (req\<lparr>body := (''criticality'', v) # body req\<rparr>) d)) =
   status_code (res (addAnomaly req d))"
  by (simp add: addAnomaly_def Let_def property_Cons Anomaly_create_def split: jsval.splits)


text \<open>
  Claim C6.  A create request in which one of \<open>title\<close>, \<open>description\<close>, \<open>modelName\<close>,
  \<open>cameraIds\<close>, \<open>startTime\<close>, \<open>endTime\<close>, \<open>daysOfWeek\<close> is missing (undefined or null)
  is answered with status 400, "Missing required fields", whatever the other fields hold;
  the store is unchanged and no storage call has been made, so neither the camera lookup
  nor the weekday check has run.  \<open>criticality\<close> is not among the required fields:
  leaving it out never changes the status of the answer.
\<close>

theorem create_missing_field_rejected_first:
  assumes "k \<in> set required_fields" and "nullish (property (body req) k)"
  shows "addAnomaly req d =
           \<lparr>res = Response 400 (Error ''Missing required fields''), store = d, trace = []\<rparr>
       \<and> ''criticality'' \<notin> set required_fields
       \<and> status_code (res (addAnomaly (r\<lparr>body := (''criticality'', JUndefined) # body r\<rparr>) s))
           = status_code (res (addAnomaly r s))"
proof -
  from assms have "\<not> list_all (\<lambda>k. truthy (property (body req) k)) required_fields"
    by (auto simp: list_all_iff dest: nullish_not_truthy)
  then have "addAnomaly req d =
      \<lparr>res = Response 400 (Error ''Missing required fields''), store = d, trace = []\<rparr>"
    by (rule addAnomaly_missing)
  moreover have "''criticality'' \<notin> set required_fields"
    by (simp add: required_fields_def)
  moreover have "status_code (res (addAnomaly (r\<lparr>body := (''criticality'', JUndefined) # body r\<rparr>) s))
           = status_code (res (addAnomaly r s))"
    by (rule addAnomaly_status_ignores_criticality)
  ultimately show ?thesis by simp
qed

theorem create_missing_field_rejected_first_witness:
  "''endTime'' \<in> set required_fields
   \<and> nullish (property [(''title'', JStr ''Crowd''), (''cameraIds'', JArr [JNum 99]),
                          (''daysOfWeek'', JArr [JStr ''Funday''])] ''endTime'')
   \<and> addAnomaly (req7 0 [(''title'', JStr ''Crowd''), (''cameraIds'', JArr [JNum 99]),
                          (''daysOfWeek'', JArr [JStr ''Funday''])]) db0 =
        \<lparr>res = Response 400 (Error ''Missing required fields''), store = db0, trace = []\<rparr>
   \<and> status_code (res (addAnomaly
          (req7 0 ((''criticality'', JUndefined) # create_body [JNum 1, JNum 2])) db0)) = 201"
proof -
  let ?b = "[(''title'', JStr ''Crowd''), (''cameraIds'', JArr [JNum 99]),
             (''daysOfWeek'', JArr [JStr ''Funday''])]"
  have h1: "''endTime'' \<in> set required_fields" by (simp add: required_fields_def)
  have h2: "nullish (property (body (req7 0 ?b)) ''endTime'')"
    by (simp add: req7_def property_def)
  have ok: "status_code (res (addAnomaly (req7 0 (create_body [JNum 1, JNum 2])) db0)) = 201"
    by (simp add: addAnomaly_def Let_def req7_def create_body_def property_def DAYS_OF_WEEK_def
          db0_findAll_1_2 Anomaly_create_def)
  show ?thesis
    using create_missing_field_rejected_first[OF h1 h2, of db0
            "req7 0 (create_body [JNum 1, JNum 2])" db0] h1 h2 ok
    by (simp add: req7_def)
qed






section \<open>Camera resolution in a create request\<close>

lemma Camera_findAll_unowned:
  assumes "db_ok d" and "i \<in> set ids"
    and "\<not> list_ex (\<lambda>c. cameraId c = i \<and> camera.organizationId c = org) (cameras d)"
  shows "length (Camera_findAll d ids org) \<noteq> length ids"
proof
  assume "length (Camera_findAll d ids org) = length ids"
  moreover from assms(1) have "distinct (map cameraId (cameras d))" by (simp add: db_ok_def)
  ultimately have "\<forall>i\<in>set ids. \<exists>c\<in>set (cameras d). cameraId c = i \<and> camera.organizationId c = org"
    by (simp add: Camera_findAll_count)
  with assms(2,3) show False by (auto simp: list_ex_iff)
qed

lemma addAnomaly_unresolved_store:
  assumes "\<And>ids. property (body req) ''cameraIds'' = JArr ids \<Longrightarrow>
             length (Camera_findAll d ids (user_organizationId req)) \<noteq> length ids"
  shows "store (addAnomaly req d) = d \<and> list_all (\<lambda>e. snd e = d) (trace (addAnomaly req d))"
  using assms by (auto simp: addAnomaly_def Let_def split: jsval.splits)

text \<open>
  Claim C2, as amended.  Let some element of \<open>cameraIds\<close> be the identifier of no camera
  owned by the acting organization.  Then the create request leaves the store unchanged:
  no rule row and no join row is written, and every storage call made has left the store
  as it was.  When the request passes the checks that come first (required fields truthy,
  \<open>daysOfWeek\<close> an array of weekdays of the domain), the answer is status 404, "One or more
  cameras not found or access denied", after the camera lookup alone.  (A request that
  fails one of the earlier checks is answered 400 by that check.)
\<close>

theorem create_unresolved_camera_rejected:
  assumes "db_ok d"
    and "property (body req) ''cameraIds'' = JArr ids" and "i \<in> set ids"
    and "\<not> list_ex (\<lambda>c. cameraId c = i \<and> camera.organizationId c = user_organizationId req)
              (cameras d)"
  shows "store (addAnomaly req d) = d
       \<and> list_all (\<lambda>e. snd e = d) (trace (addAnomaly req d))
       \<and> (list_all (\<lambda>k. truthy (property (body req) k)) required_fields \<and>
            property (body req) ''daysOfWeek'' = JArr days \<and>
            list_all (\<lambda>day. day \<in> set DAYS_OF_WEEK) days \<longrightarrow>
          addAnomaly req d =
            \<lparr>res = Response 404 (Error ''One or more cameras not found or access denied''),
             store = d, trace = [(CameraFindAll, d)]\<rparr>)"
proof -
  have ne: "length (Camera_findAll d ids (user_organizationId req)) \<noteq> length ids"
    using assms(1,3,4) by (rule Camera_findAll_unowned)
  have "\<And>ids'. property (body req) ''cameraIds'' = JArr ids' \<Longrightarrow>
          length (Camera_findAll d ids' (user_organizationId req)) \<noteq> length ids'"
    using ne assms(2) by simp
  then have "store (addAnomaly req d) = d \<and> list_all (\<lambda>e. snd e = d) (trace (addAnomaly req d))"
    by (rule addAnomaly_unresolved_store)
  moreover have "ids \<noteq> []" using assms(3) by auto
  then have "list_all (\<lambda>k. truthy (property (body req) k)) required_fields \<and>
            property (body req) ''daysOfWeek'' = JArr days \<and>
            list_all (\<lambda>day. day \<in> set DAYS_OF_WEEK) days \<longrightarrow>
          addAnomaly req d =
            \<lparr>res = Response 404 (Error ''One or more cameras not found or access denied''),
             store = d, trace = [(CameraFindAll, d)]\<rparr>"
    using assms(2) ne by (simp add: addAnomaly_unresolved)
  ultimately show ?thesis by simp
qed

theorem create_unresolved_camera_rejected_witness:
  "db_ok db0
   \<and> property (create_body [JNum 1, JNum 99]) ''cameraIds'' = JArr [JNum 1, JNum 99]
   \<and> JNum 99 \<in> set [JNum 1, JNum 99]
   \<and> \<not> list_ex (\<lambda>c. cameraId c = JNum 99 \<and> camera.organizationId c = 7) (cameras db0)
   \<and> addAnomaly (req7 0 (create_body [JNum 1, JNum 99])) db0 =
        \<lparr>res = Response 404 (Error ''One or more cameras not found or access denied''),
         store = db0, trace = [(CameraFindAll, db0)]\<rparr>"
proof -
  let ?r = "req7 0 (create_body [JNum 1, JNum 99])"
  have h1: "db_ok db0" by (rule db0_ok)
  have h2: "property (body ?r) ''cameraIds'' = JArr [JNum 1, JNum 99]"
    by (simp add: req7_def create_body_def property_def)
  have h3: "JNum 99 \<in> set [JNum 1, JNum 99]" by simp
  have h4: "\<not> list_ex (\<lambda>c. cameraId c = JNum 99 \<and> camera.organizationId c = user_organizationId ?r)
              (cameras db0)"
    by (simp add: req7_def db0_def cam1_def cam2_def cam99_def)
  have h5: "list_all (\<lambda>k. truthy (property (body ?r) k)) required_fields \<and>
            property (body ?r) ''daysOfWeek'' = JArr [JStr ''Fri'', JStr ''Sat''] \<and>
            list_all (\<lambda>day. day \<in> set DAYS_OF_WEEK) [JStr ''Fri'', JStr ''Sat'']"
    by (simp add: req7_def create_body_def property_def required_fields_def DAYS_OF_WEEK_def)
  show ?thesis
    using create_unresolved_camera_rejected[OF h1 h2 h3 h4,
            where days = "[JStr ''Fri'', JStr ''Sat'']"] h1 h2 h3 h4 h5
    by (simp add: req7_def)
qed

text \<open>
  Claim C2 as stated fails: camera 99 belongs to organization 3, and a request of
  organization 7 for cameras 1 and 99 that has no \<open>title\<close> is answered 400 by the
  required-field check, not 404.
\<close>

theorem create_unresolved_camera_counterexample:
  "Camera_findAll db0 [JNum 1, JNum 99] 7 = [cam1]
   \<and> property (filter (\<lambda>kv. fst kv \<noteq> ''title'') (create_body [JNum 1, JNum 99])) ''cameraIds''
       = JArr [JNum 1, JNum 99]
   \<and> addAnomaly (req7 0 (filter (\<lambda>kv. fst kv \<noteq> ''title'') (create_body [JNum 1, JNum 99]))) db0
       = \<lparr>res = Response 400 (Error ''Missing required fields''), store = db0, trace = []\<rparr>"
  by (simp add: Camera_findAll_def db0_def cam1_def cam2_def cam99_def addAnomaly_def Let_def
        req7_def create_body_def property_def)

section \<open>Updating a rule\<close>

lemma save_frame [simp]:
  "cameras (save d a) = cameras d"
  "associations (save d a) = associations d"
  "next_anomalyId (save d a) = next_anomalyId d"
  "through (save d a) = through d"
  by (simp_all add: save_def)

lemma cameras_of_save [simp]: "cameras_of (save d a) aid = cameras_of d aid"
  by (simp add: cameras_of_def)

lemma updateAnomaly_assigned:
  "anomaly
     \<lparr>title := coalesce (property b ''title'') (title anomaly),
      description := coalesce (property b ''description'') (description anomaly),
      criticality := coalesce (property b ''criticality'') (criticality anomaly),
      modelName := coalesce (property b ''modelName'') (modelName anomaly),
      status := coalesce (property b ''status'') (status anomaly)\<rparr> = assigned b anomaly"
  by (simp add: assigned_def)

lemma updateAnomaly_not_found:
  assumes "Anomaly_findOne d (params_anomalyId req) (user_organizationId req) = None"
  shows "updateAnomaly req d =
           \<lparr>res = Response 404
                    (Message ''Anomaly not found or does not belong to your organization''),
            store = d, trace = [(AnomalyFindOne, d)]\<rparr>"
  using assms by (simp add: updateAnomaly_def Let_def)

lemma updateAnomaly_fields_only:
  assumes "Anomaly_findOne d (params_anomalyId req) (user_organizationId req) = Some a"
    and "\<not> truthy (property (body req) ''cameraIds'')"
  shows "updateAnomaly req d =
           \<lparr>res = Response 200 (Updated ''Anomaly updated successfully''
                    (Anomaly_findByPk (save d (assigned (body req) a)) (params_anomalyId req)
                       Camera_attributes)),
            store = save d (assigned (body req) a),
            trace = [(AnomalyFindOne, d), (Save, save d (assigned (body req) a)),
                     (AnomalyFindByPk, save d (assigned (body req) a))]\<rparr>"
  using assms by (simp add: updateAnomaly_def Let_def updateAnomaly_assigned)

lemma updateAnomaly_unresolved:
  assumes "Anomaly_findOne d (params_anomalyId req) (user_organizationId req) = Some a"
    and "property (body req) ''cameraIds'' = JArr ids"
    and "length (Camera_findAll d ids (user_organizationId req)) \<noteq> length ids"
  shows "updateAnomaly req d =
           \<lparr>res = Response 404 (Message ''One or more cameras not found or access denied''),
            store = d, trace = [(AnomalyFindOne, d), (CameraFindAll, d)]\<rparr>"
  using assms by (simp add: updateAnomaly_def Camera_findAll_in_def Let_def)

lemma updateAnomaly_rebound:
  assumes "Anomaly_findOne d (params_anomalyId req) (user_organizationId req) = Some a"
    and "property (body req) ''cameraIds'' = JArr ids"
    and "length (Camera_findAll d ids (user_organizationId req)) = length ids"
    and "d1 = setCameras d (anomalyId a) (Camera_findAll d ids (user_organizationId req))"
  shows "updateAnomaly req d =
           \<lparr>res = Response 200 (Updated ''Anomaly updated successfully''
                    (Anomaly_findByPk (save d1 (assigned (body req) a)) (params_anomalyId req)
                       Camera_attributes)),
            store = save d1 (assigned (body req) a),
            trace = [(AnomalyFindOne, d), (CameraFindAll, d), (SetCameras, d1),
                     (Save, save d1 (assigned (body req) a)),
                     (AnomalyFindByPk, save d1 (assigned (body req) a))]\<rparr>"
  using assms by (simp add: updateAnomaly_def Camera_findAll_in_def Let_def updateAnomaly_assigned)

lemma Camera_findAll_in_not_array:
  assumes "\<forall>ids. v \<noteq> JArr ids"
  shows "Camera_findAll_in d v org = (if truthy (js_length v) then None else Some [])"
  using assms by (cases v) (simp_all add: Camera_findAll_in_def)

lemma updateAnomaly_not_array_rejected:
  assumes "Anomaly_findOne d (params_anomalyId req) (user_organizationId req) = Some a"
    and "truthy (property (body req) ''cameraIds'')"
    and "\<forall>ids. property (body req) ''cameraIds'' \<noteq> JArr ids"
    and "js_length (property (body req) ''cameraIds'') \<noteq> JNum 0"
  shows "updateAnomaly req d =
           \<lparr>res = (if truthy (js_length (property (body req) ''cameraIds''))
                   then Response 500 (Failure ''Failed to update anomaly'')
                   else Response 404
                          (Message ''One or more cameras not found or access denied'')),
            store = d, trace = [(AnomalyFindOne, d), (CameraFindAll, d)]\<rparr>"
  using assms
  by (simp add: updateAnomaly_def Camera_findAll_in_not_array Let_def)

lemma updateAnomaly_not_array_cleared:
  assumes "Anomaly_findOne d (params_anomalyId req) (user_organizationId req) = Some a"
    and "truthy (property (body req) ''cameraIds'')"
    and "\<forall>ids. property (body req) ''cameraIds'' \<noteq> JArr ids"
    and "js_length (property (body req) ''cameraIds'') = JNum 0"
    and "d1 = setCameras d (anomalyId a) []"
  shows "updateAnomaly req d =
           \<lparr>res = Response 200 (Updated ''Anomaly updated successfully''
                    (Anomaly_findByPk (save d1 (assigned (body req) a)) (params_anomalyId req)
                       Camera_attributes)),
            store = save d1 (assigned (body req) a),
            trace = [(AnomalyFindOne, d), (CameraFindAll, d), (SetCameras, d1),
                     (Save, save d1 (assigned (body req) a)),
                     (AnomalyFindByPk, save d1 (assigned (body req) a))]\<rparr>"
  using assms
  by (simp add: updateAnomaly_def Camera_findAll_in_not_array Let_def updateAnomaly_assigned)

lemma Anomaly_findOne_SomeD:
  assumes "Anomaly_findOne d aid org = Some a"
  shows "a \<in> set (anomalies d) \<and> anomalyId a = aid \<and> organizationId a = org"
  using assms by (auto simp: Anomaly_findOne_def find_Some_iff)

lemma assigned_frame [simp]:
  "anomalyId (assigned b a) = anomalyId a"
  "organizationId (assigned b a) = organizationId a"
  "startTime (assigned b a) = startTime a"
  "endTime (assigned b a) = endTime a"
  "daysOfWeek (assigned b a) = daysOfWeek a"
  by (simp_all add: assigned_def)



lemma Camera_findAll_ids:
  assumes "db_ok d" and "length (Camera_findAll d ids org) = length ids"
  shows "cameraId ` set (Camera_findAll d ids org) = set ids"
    and "distinct (map cameraId (Camera_findAll d ids org))"
proof -
  from assms(1) have uniq: "distinct (map cameraId (cameras d))" by (simp add: db_ok_def)
  from Camera_findAll_count[OF uniq, of ids org] assms(2)
  have "\<forall>i\<in>set ids. \<exists>c\<in>set (cameras d). cameraId c = i \<and> camera.organizationId c = org"
    by simp
  then show "cameraId ` set (Camera_findAll d ids org) = set ids"
    by (auto simp: Camera_findAll_def image_iff)
  show "distinct (map cameraId (Camera_findAll d ids org))"
    unfolding Camera_findAll_def using uniq by (rule distinct_map_filter)
qed

text \<open>
  Claim C3, as amended.  Let the update be for a rule that the lookup scoped to the acting
  organization finds, and let it supply a \<open>cameraIds\<close> array that passes camera resolution
  (the lookup returns as many cameras as identifiers were supplied; in a well-formed
  store: the identifiers are pairwise distinct and each is of a camera owned by the
  organization).  Then the answer is status 200 and afterwards the cameras associated
  with the rule are exactly the supplied ones: earlier associations outside the new set
  are gone, every supplied camera is associated, no join row occurs twice, and the
  associations of every other rule are as before.
\<close>

theorem update_rebinds_cameras:
  assumes "db_ok d"
    and "Anomaly_findOne d (params_anomalyId req) (user_organizationId req) = Some a"
    and "property (body req) ''cameraIds'' = JArr ids"
    and "length (Camera_findAll d ids (user_organizationId req)) = length ids"
  shows "status_code (res (updateAnomaly req d)) = 200
       \<and> set (cameras_of (store (updateAnomaly req d)) (params_anomalyId req)) = set ids
       \<and> distinct (cameras_of (store (updateAnomaly req d)) (params_anomalyId req))
       \<and> distinct (associations (store (updateAnomaly req d)))
       \<and> (aid \<noteq> params_anomalyId req \<longrightarrow>
            cameras_of (store (updateAnomaly req d)) aid = cameras_of d aid)"
proof -
  let ?cams = "Camera_findAll d ids (user_organizationId req)"
  let ?d1 = "setCameras d (anomalyId a) ?cams"
  note out = updateAnomaly_rebound[OF assms(2-4) refl]
  have a: "anomalyId a = params_anomalyId req"
    using assms(2) by (simp add: Anomaly_findOne_SomeD)
  have da: "distinct (associations d)" using assms(1) by (simp add: db_ok_def)
  have d1: "distinct (associations ?d1)"
    using da Camera_findAll_ids(2)[OF assms(1,4)] by (rule distinct_associations_setCameras)
  have "status_code (res (updateAnomaly req d)) = 200" by (simp add: out)
  moreover have "set (cameras_of (store (updateAnomaly req d)) (params_anomalyId req)) = set ids"
    by (simp add: out a[symmetric] set_cameras_of_setCameras Camera_findAll_ids(1)[OF assms(1,4)])
  moreover have "distinct (cameras_of (store (updateAnomaly req d)) (params_anomalyId req))"
    using d1 by (simp add: out distinct_cameras_of)
  moreover have "distinct (associations (store (updateAnomaly req d)))"
    using d1 by (simp add: out)
  moreover have "aid \<noteq> params_anomalyId req \<longrightarrow>
            cameras_of (store (updateAnomaly req d)) aid = cameras_of d aid"
    by (simp add: out a cameras_of_setCameras_other)
  ultimately show ?thesis by simp
qed

lemma db0_findOne_5: "Anomaly_findOne db0 5 7 = Some rule5"
  by (simp add: Anomaly_findOne_def db0_def rule5_def rule6_def)

theorem update_rebinds_cameras_witness:
  "db_ok db0
   \<and> Anomaly_findOne db0 5 7 = Some rule5
   \<and> cameras_of db0 5 = [JNum 1]
   \<and> length (Camera_findAll db0 [JNum 2] 7) = length [JNum (2::rat)]
   \<and> status_code (res (updateAnomaly (req7 5 [(''cameraIds'', JArr [JNum 2])]) db0)) = 200
   \<and> set (cameras_of (store (updateAnomaly (req7 5 [(''cameraIds'', JArr [JNum 2])]) db0)) 5)
       = {JNum 2}
   \<and> cameras_of (store (updateAnomaly (req7 5 [(''cameraIds'', JArr [JNum 2])]) db0)) 6
       = [JNum 99]"
proof -
  let ?r = "req7 5 [(''cameraIds'', JArr [JNum 2])]"
  have h1: "db_ok db0" by (rule db0_ok)
  have h2: "Anomaly_findOne db0 (params_anomalyId ?r) (user_organizationId ?r) = Some rule5"
    by (simp add: req7_def db0_findOne_5)
  have h3: "property (body ?r) ''cameraIds'' = JArr [JNum 2]"
    by (simp add: req7_def property_def)
  have h4: "length (Camera_findAll db0 [JNum 2] (user_organizationId ?r)) = length [JNum (2::rat)]"
    by (simp add: req7_def Camera_findAll_def db0_def cam1_def cam2_def cam99_def)
  have c: "cameras_of db0 5 = [JNum 1]" "cameras_of db0 6 = [JNum 99]"
    by (simp_all add: cameras_of_def db0_def)
  show ?thesis
    using update_rebinds_cameras[OF h1 h2 h3 h4, where aid = 6] h1 h2 h4 c
    by (simp add: req7_def)
qed

text \<open>
  Claim C3 as stated fails.  Camera 1 is owned by organization 7, but rule 6 belongs to
  organization 3: an update of rule 6 by organization 7 is answered 404 and rule 6 stays
  associated with camera 99.  And camera 2 is owned by organization 7, but an update of
  rule 5 that names it twice is answered 404 and rule 5 stays associated with camera 1.
\<close>

theorem update_rebinds_cameras_counterexample:
  "Camera_findAll db0 [JNum 1] 7 = [cam1]
   \<and> res (updateAnomaly (req7 6 [(''cameraIds'', JArr [JNum 1])]) db0) =
        Response 404 (Message ''Anomaly not found or does not belong to your organization'')
   \<and> cameras_of (store (updateAnomaly (req7 6 [(''cameraIds'', JArr [JNum 1])]) db0)) 6
        = [JNum 99]
   \<and> Camera_findAll db0 [JNum 2, JNum 2] 7 = [cam2]
   \<and> res (updateAnomaly (req7 5 [(''cameraIds'', JArr [JNum 2, JNum 2])]) db0) =
        Response 404 (Message ''One or more cameras not found or access denied'')
   \<and> cameras_of (store (updateAnomaly (req7 5 [(''cameraIds'', JArr [JNum 2, JNum 2])]) db0)) 5
        = [JNum 1]"
  by (simp add: Camera_findAll_def Anomaly_findOne_def cameras_of_def db0_def cam1_def cam2_def
        cam99_def rule5_def rule6_def updateAnomaly_def Camera_findAll_in_def Let_def req7_def
        property_def)





lemma schedules_setCameras [simp]: "schedules (setCameras d aid cams) = schedules d"
  by (simp add: schedules_def)

lemma schedules_save:
  assumes "distinct (map anomalyId (anomalies d))" and "a \<in> set (anomalies d)"
  shows "schedules (save d (assigned b a)) = schedules d"
proof -
  from assms(1) have inj: "inj_on anomalyId (set (anomalies d))" by (simp add: distinct_map)
  have "\<And>r. r \<in> set (anomalies d) \<Longrightarrow> anomalyId r = anomalyId a \<Longrightarrow> r = a"
    using inj assms(2) by (auto dest: inj_onD)
  then show ?thesis
    by (auto simp: schedules_def save_def)
qed

lemma updateAnomaly_schedules:
  assumes "db_ok d"
  shows "schedules (store (updateAnomaly req d)) = schedules d
         \<and> list_all (\<lambda>e. schedules (snd e) = schedules d) (trace (updateAnomaly req d))"
proof (cases "Anomaly_findOne d (params_anomalyId req) (user_organizationId req)")
  case None
  then show ?thesis by (simp add: updateAnomaly_not_found)
next
  case (Some a)
  from assms have uniq: "distinct (map anomalyId (anomalies d))" by (simp add: db_ok_def)
  from Some have mem: "a \<in> set (anomalies d)" by (simp add: Anomaly_findOne_SomeD)
  note sv = schedules_save[OF uniq mem]
  show ?thesis
  proof (cases "truthy (property (body req) ''cameraIds'')")
    case False
    show ?thesis by (simp add: updateAnomaly_fields_only[OF Some False] sv)
  next
    case True
    show ?thesis
    proof (cases "\<exists>ids. property (body req) ''cameraIds'' = JArr ids")
      case False
      then have na: "\<forall>ids. property (body req) ''cameraIds'' \<noteq> JArr ids" by simp
      show ?thesis
      proof (cases "js_length (property (body req) ''cameraIds'') = JNum 0")
        case False
        then show ?thesis by (simp add: updateAnomaly_not_array_rejected[OF Some True na])
      next
        case zero: True
        let ?d1 = "setCameras d (anomalyId a) []"
        have "distinct (map anomalyId (anomalies ?d1))" "a \<in> set (anomalies ?d1)"
          using uniq mem by simp_all
        then have "schedules (save ?d1 (assigned (body req) a)) = schedules ?d1"
          by (rule schedules_save)
        then show ?thesis
          by (simp add: updateAnomaly_not_array_cleared[OF Some True na zero refl])
      qed
    next
      case True
      then obtain ids where c: "property (body req) ''cameraIds'' = JArr ids" by blast
      show ?thesis
      proof (cases "length (Camera_findAll d ids (user_organizationId req)) = length ids")
        case False
        then show ?thesis by (simp add: updateAnomaly_unresolved[OF Some c])
      next
        case True
        let ?d1 = "setCameras d (anomalyId a) (Camera_findAll d ids (user_organizationId req))"
        have "distinct (map anomalyId (anomalies ?d1))" "a \<in> set (anomalies ?d1)"
          using uniq mem by simp_all
        then have "schedules (save ?d1 (assigned (body req) a)) = schedules ?d1"
          by (rule schedules_save)
        then show ?thesis by (simp add: updateAnomaly_rebound[OF Some c True refl])
      qed
    qed
  qed
qed

lemma updateAnomaly_ignores_schedule:
  "updateAnomaly (req\<lparr>body := (''startTime'', st) # (''endTime'', et) # (''daysOfWeek'', dw)
      # body req\<rparr>) d = updateAnomaly req d"
  by (simp add: updateAnomaly_def property_Cons)

text \<open>
  Claim C9.  An update never changes a schedule: after any update request, and after each
  storage call it makes, every stored rule has the \<open>startTime\<close>, \<open>endTime\<close> and
  \<open>daysOfWeek\<close> it had before.  The handler does not read these three properties of the
  body: supplying values for them changes nothing in the outcome of the request.
\<close>

theorem update_keeps_schedule:
  assumes "db_ok d"
  shows "schedules (store (updateAnomaly req d)) = schedules d
       \<and> list_all (\<lambda>e. schedules (snd e) = schedules d) (trace (updateAnomaly req d))
       \<and> updateAnomaly (req\<lparr>body := (''startTime'', st) # (''endTime'', et)
            # (''daysOfWeek'', dw) # body req\<rparr>) d = updateAnomaly req d"
  using updateAnomaly_schedules[OF assms, of req] updateAnomaly_ignores_schedule[of st et dw req d]
  by simp

theorem update_keeps_schedule_witness:
  "db_ok db0
   \<and> schedules db0 = [(5, JStr ''22:00'', JStr ''06:00'', JArr [JStr ''Sat'', JStr ''Sun'']),
                       (6, JStr ''08:00'', JStr ''18:00'', JArr [JStr ''Mon''])]
   \<and> status_code (res (updateAnomaly (req7 5 [(''startTime'', JStr ''00:00''),
        (''endTime'', JStr ''01:00''), (''daysOfWeek'', JArr [JStr ''Mon'']),
        (''title'', JStr ''Renamed'')]) db0)) = 200
   \<and> schedules (store (updateAnomaly (req7 5 [(''startTime'', JStr ''00:00''),
        (''endTime'', JStr ''01:00''), (''daysOfWeek'', JArr [JStr ''Mon'']),
        (''title'', JStr ''Renamed'')]) db0))
      = [(5, JStr ''22:00'', JStr ''06:00'', JArr [JStr ''Sat'', JStr ''Sun'']),
         (6, JStr ''08:00'', JStr ''18:00'', JArr [JStr ''Mon''])]"
proof -
  let ?r = "req7 5 [(''startTime'', JStr ''00:00''), (''endTime'', JStr ''01:00''),
              (''daysOfWeek'', JArr [JStr ''Mon'']), (''title'', JStr ''Renamed'')]"
  have h1: "db_ok db0" by (rule db0_ok)
  have s: "schedules db0 = [(5, JStr ''22:00'', JStr ''06:00'', JArr [JStr ''Sat'', JStr ''Sun'']),
                       (6, JStr ''08:00'', JStr ''18:00'', JArr [JStr ''Mon''])]"
    by (simp add: schedules_def db0_def rule5_def rule6_def)
  have st: "status_code (res (updateAnomaly ?r db0)) = 200"
    by (simp add: updateAnomaly_def Camera_findAll_in_def Let_def req7_def property_def
          db0_findOne_5)
  show ?thesis
    using update_keeps_schedule[OF h1, of ?r] h1 st
    by (simp add: s)
qed

section \<open>Duplicated camera identifiers\<close>

lemma Camera_findAll_duplicates:
  assumes "db_ok d" and "\<not> distinct ids"
  shows "length (Camera_findAll d ids org) \<noteq> length ids"
proof -
  from assms(1) have "distinct (map cameraId (cameras d))" by (simp add: db_ok_def)
  from Camera_findAll_count[OF this, of ids org] assms(2) show ?thesis by blast
qed

text \<open>
  Claim C10, as amended.  In a well-formed store a \<open>cameraIds\<close> array with a duplicated
  identifier always fails the count check of camera resolution, also when every
  identifier in it is of a camera owned by the acting organization: the lookup returns a
  camera once.  A create request that passes the checks that come first (required fields
  truthy, \<open>daysOfWeek\<close> an array of weekdays of the domain) is then answered 404; every
  create request with such an array leaves the store unchanged.  An update request with
  such an array is always answered 404 and leaves the store unchanged: by the count
  check when the rule is found for the organization, by the rule lookup otherwise.
\<close>

theorem duplicate_cameraIds_rejected:
  assumes "db_ok d"
    and "property (body req) ''cameraIds'' = JArr ids" and "\<not> distinct ids"
  shows "length (Camera_findAll d ids (user_organizationId req)) \<noteq> length ids
       \<and> (list_all (\<lambda>k. truthy (property (body req) k)) required_fields \<and>
            property (body req) ''daysOfWeek'' = JArr days \<and>
            list_all (\<lambda>day. day \<in> set DAYS_OF_WEEK) days \<longrightarrow>
          addAnomaly req d =
            \<lparr>res = Response 404 (Error ''One or more cameras not found or access denied''),
             store = d, trace = [(CameraFindAll, d)]\<rparr>)
       \<and> store (addAnomaly req d) = d
       \<and> (Anomaly_findOne d (params_anomalyId req) (user_organizationId req) = Some a \<longrightarrow>
          updateAnomaly req d =
            \<lparr>res = Response 404 (Message ''One or more cameras not found or access denied''),
             store = d, trace = [(AnomalyFindOne, d), (CameraFindAll, d)]\<rparr>)
       \<and> status_code (res (updateAnomaly req d)) = 404
       \<and> store (updateAnomaly req d) = d"
proof -
  have ne: "length (Camera_findAll d ids (user_organizationId req)) \<noteq> length ids"
    using assms(1,3) by (rule Camera_findAll_duplicates)
  have nonempty: "ids \<noteq> []" using assms(3) by auto
  have create: "list_all (\<lambda>k. truthy (property (body req) k)) required_fields \<and>
            property (body req) ''daysOfWeek'' = JArr days \<and>
            list_all (\<lambda>day. day \<in> set DAYS_OF_WEEK) days \<longrightarrow>
          addAnomaly req d =
            \<lparr>res = Response 404 (Error ''One or more cameras not found or access denied''),
             store = d, trace = [(CameraFindAll, d)]\<rparr>"
    using assms(2) nonempty ne by (simp add: addAnomaly_unresolved)
  have "\<And>ids'. property (body req) ''cameraIds'' = JArr ids' \<Longrightarrow>
          length (Camera_findAll d ids' (user_organizationId req)) \<noteq> length ids'"
    using ne assms(2) by simp
  then have unchanged: "store (addAnomaly req d) = d"
    using addAnomaly_unresolved_store[of req d] by simp
  have update: "Anomaly_findOne d (params_anomalyId req) (user_organizationId req) = Some a \<longrightarrow>
          updateAnomaly req d =
            \<lparr>res = Response 404 (Message ''One or more cameras not found or access denied''),
             store = d, trace = [(AnomalyFindOne, d), (CameraFindAll, d)]\<rparr>"
    using assms(2) ne by (simp add: updateAnomaly_unresolved)
  have always: "status_code (res (updateAnomaly req d)) = 404 \<and> store (updateAnomaly req d) = d"
  proof (cases "Anomaly_findOne d (params_anomalyId req) (user_organizationId req)")
    case None
    then show ?thesis by (simp add: updateAnomaly_not_found)
  next
    case (Some x)
    then show ?thesis using assms(2) ne by (simp add: updateAnomaly_unresolved)
  qed
  from ne create unchanged update always show ?thesis by simp
qed

theorem duplicate_cameraIds_rejected_witness:
  "db_ok db0
   \<and> \<not> distinct [JNum 1, JNum (1::rat)]
   \<and> Camera_findAll db0 [JNum 1, JNum 1] 7 = [cam1]
   \<and> addAnomaly (req7 5 (create_body [JNum 1, JNum 1])) db0 =
        \<lparr>res = Response 404 (Error ''One or more cameras not found or access denied''),
         store = db0, trace = [(CameraFindAll, db0)]\<rparr>
   \<and> updateAnomaly (req7 5 (create_body [JNum 1, JNum 1])) db0 =
        \<lparr>res = Response 404 (Message ''One or more cameras not found or access denied''),
         store = db0, trace = [(AnomalyFindOne, db0), (CameraFindAll, db0)]\<rparr>"
proof -
  let ?r = "req7 5 (create_body [JNum 1, JNum 1])"
  have h1: "db_ok db0" by (rule db0_ok)
  have h2: "property (body ?r) ''cameraIds'' = JArr [JNum 1, JNum 1]"
    by (simp add: req7_def create_body_def property_def)
  have h3: "\<not> distinct [JNum 1, JNum (1::rat)]" by simp
  have h4: "list_all (\<lambda>k. truthy (property (body ?r) k)) required_fields \<and>
            property (body ?r) ''daysOfWeek'' = JArr [JStr ''Fri'', JStr ''Sat''] \<and>
            list_all (\<lambda>day. day \<in> set DAYS_OF_WEEK) [JStr ''Fri'', JStr ''Sat'']"
    by (simp add: req7_def create_body_def property_def required_fields_def DAYS_OF_WEEK_def)
  have h5: "Anomaly_findOne db0 (params_anomalyId ?r) (user_organizationId ?r) = Some rule5"
    by (simp add: req7_def db0_findOne_5)
  have f: "Camera_findAll db0 [JNum 1, JNum 1] 7 = [cam1]"
    by (simp add: Camera_findAll_def db0_def cam1_def cam2_def cam99_def)
  show ?thesis
    using duplicate_cameraIds_rejected[OF h1 h2 h3,
            where days = "[JStr ''Fri'', JStr ''Sat'']" and a = rule5] h1 h3 h4 h5 f
    by simp
qed

text \<open>
  Claim C10 as stated fails for create requests: camera 1 is owned by organization 7, and
  a create request naming it twice that has no \<open>title\<close> is answered 400 by the
  required-field check, before the camera lookup.
\<close>

theorem duplicate_cameraIds_counterexample:
  "property (filter (\<lambda>kv. fst kv \<noteq> ''title'') (create_body [JNum 1, JNum 1])) ''cameraIds''
       = JArr [JNum 1, JNum 1]
   \<and> addAnomaly (req7 0 (filter (\<lambda>kv. fst kv \<noteq> ''title'') (create_body [JNum 1, JNum 1]))) db0
       = \<lparr>res = Response 400 (Error ''Missing required fields''), store = db0, trace = []\<rparr>"
  by (simp add: addAnomaly_def Let_def req7_def create_body_def property_def)

section \<open>The storage calls keep the store well-formed\<close>

lemma db_ok_setCameras:
  assumes "db_ok d" and "distinct (map cameraId cams)" and "set cams \<subseteq> set (cameras d)"
    and "cams = [] \<or> aid \<in> set (map anomalyId (anomalies d))"
  shows "db_ok (setCameras d aid cams)"
proof -
  have "distinct (associations (setCameras d aid cams))"
    using assms(1,2) by (simp add: db_ok_def distinct_associations_setCameras)
  moreover have "list_all (\<lambda>r. fst r \<in> set (map anomalyId (anomalies d)) \<and>
                     snd r \<in> set (map cameraId (cameras d))) (associations (setCameras d aid cams))"
    using assms by (auto simp: db_ok_def list_all_iff set_associations_setCameras)
  ultimately show ?thesis
    using assms(1) by (simp add: db_ok_def)
qed

lemma cameras_of_setCameras_Nil [simp]: "cameras_of (setCameras d aid []) aid = []"
  using set_cameras_of_setCameras[of d aid "[]"] by simp

lemma db_ok_destroy:
  assumes "db_ok d" and "cameras_of d (anomalyId a) = []"
  shows "db_ok (destroy d a)"
proof -
  from assms(2) have none: "\<And>r. r \<in> set (associations d) \<Longrightarrow> fst r \<noteq> anomalyId a"
    by (auto simp: cameras_of_def filter_empty_conv)
  have "distinct (map anomalyId (filter (\<lambda>r. anomalyId r \<noteq> anomalyId a) (anomalies d)))"
    using assms(1) by (simp add: db_ok_def distinct_map_filter)
  moreover have "list_all (\<lambda>r. fst r \<in> set (map anomalyId (anomalies (destroy d a))) \<and>
                     snd r \<in> set (map cameraId (cameras (destroy d a)))) (associations (destroy d a))"
  proof -
    have "\<And>r. r \<in> set (associations d) \<Longrightarrow>
            fst r \<in> anomalyId ` {x \<in> set (anomalies d). anomalyId x \<noteq> anomalyId a} \<and>
            snd r \<in> cameraId ` set (cameras d)"
    proof -
      fix r assume r: "r \<in> set (associations d)"
      with assms(1) have "fst r \<in> anomalyId ` set (anomalies d)"
        and c: "snd r \<in> cameraId ` set (cameras d)"
        by (auto simp: db_ok_def list_all_iff)
      then obtain x where "x \<in> set (anomalies d)" "fst r = anomalyId x" by auto
      moreover from none[OF r] have "fst r \<noteq> anomalyId a" .
      ultimately have "fst r \<in> anomalyId ` {x \<in> set (anomalies d). anomalyId x \<noteq> anomalyId a}"
        by auto
      with c show "fst r \<in> anomalyId ` {x \<in> set (anomalies d). anomalyId x \<noteq> anomalyId a} \<and>
            snd r \<in> cameraId ` set (cameras d)" by simp
    qed
    then show ?thesis by (simp add: destroy_def list_all_iff)
  qed
  ultimately show ?thesis
    using assms(1) by (simp add: db_ok_def destroy_def list_all_iff)
qed

lemma db_ok_save:
  assumes "db_ok d"
  shows "db_ok (save d (assigned b a))"
proof -
  have m: "map anomalyId (map (\<lambda>r. if anomalyId r = anomalyId a then assigned b a else r) (anomalies d))
        = map anomalyId (anomalies d)"
    by (induction "anomalies d") (auto simp: comp_def)
  have "list_all (\<lambda>r. anomalyId r < next_anomalyId d)
          (map (\<lambda>r. if anomalyId r = anomalyId a then assigned b a else r) (anomalies d))"
    using assms by (auto simp: db_ok_def list_all_iff)
  then show ?thesis
    using assms m by (simp add: db_ok_def save_def del: map_map)
qed

lemma db_ok_create:
  assumes "db_ok d" and "Anomaly_create d t de cr mn org st et dw = (a, d1)"
  shows "db_ok d1 \<and> anomalyId a \<in> set (map anomalyId (anomalies d1)) \<and> cameras d1 = cameras d"
proof -
  from assms(2) have a: "anomalyId a = next_anomalyId d"
    and d1: "d1 = d\<lparr>anomalies := anomalies d @ [a], next_anomalyId := Suc (next_anomalyId d)\<rparr>"
    by (auto simp: Anomaly_create_def Let_def)
  from assms(1) have "next_anomalyId d \<notin> set (map anomalyId (anomalies d))"
    by (auto simp: db_ok_def list_all_iff)
  then show ?thesis
    using assms(1) by (auto simp: db_ok_def d1 a list_all_iff less_Suc_eq)
qed

lemma Camera_findAll_subset: "set (Camera_findAll d ids org) \<subseteq> set (cameras d)"
  by (auto simp: Camera_findAll_def)

lemma Camera_findAll_distinct:
  "db_ok d \<Longrightarrow> distinct (map cameraId (Camera_findAll d ids org))"
  by (simp add: db_ok_def Camera_findAll_def distinct_map_filter)

section \<open>Deleting a rule\<close>

lemma deleteAnomaly_not_found:
  assumes "Anomaly_findOne d (params_anomalyId req) (user_organizationId req) = None"
  shows "deleteAnomaly req d =
           \<lparr>res = Response 404
                    (Message ''Anomaly not found or does not belong to your organization''),
            store = d, trace = [(AnomalyFindOne, d)]\<rparr>"
  using assms by (simp add: deleteAnomaly_def Let_def)

lemma deleteAnomaly_found:
  assumes "Anomaly_findOne d (params_anomalyId req) (user_organizationId req) = Some a"
  shows "deleteAnomaly req d =
           \<lparr>res = Response 200 (Message ''Anomaly deleted successfully''),
            store = destroy (setCameras d (anomalyId a) []) a,
            trace = [(AnomalyFindOne, d), (SetCameras, setCameras d (anomalyId a) []),
                     (Destroy, destroy (setCameras d (anomalyId a) []) a)]\<rparr>"
  using assms by (simp add: deleteAnomaly_def Let_def)

lemma Anomaly_findOne_None_iff:
  "Anomaly_findOne d aid org = None \<longleftrightarrow>
     \<not> list_ex (\<lambda>r. anomalyId r = aid \<and> organizationId r = org) (anomalies d)"
  by (auto simp: Anomaly_findOne_def find_None_iff list_ex_iff)

lemma destroy_frame [simp]:
  "cameras (destroy d a) = cameras d"
  "associations (destroy d a) = associations d"
  "next_anomalyId (destroy d a) = next_anomalyId d"
  "through (destroy d a) = through d"
  by (simp_all add: destroy_def)

lemma cameras_of_destroy [simp]: "cameras_of (destroy d a) aid = cameras_of d aid"
  by (simp add: cameras_of_def)

lemma no_rows_iff: "\<not> list_ex (\<lambda>r. fst r = aid) (associations d) \<longleftrightarrow> cameras_of d aid = []"
  by (auto simp: cameras_of_def list_ex_iff filter_empty_conv)

text \<open>
  Claim C5.  Let the store be well-formed.  When the lookup scoped to the acting
  organization finds the rule, the delete is answered 200 and makes its storage calls in
  this order: the rule lookup, \<open>setCameras([])\<close>, \<open>destroy\<close>.  After \<open>setCameras([])\<close> the
  rule has no association left and its row is still there; the store is well-formed after
  each call, so that at no point a join row refers to a rule that does not exist.  In the
  end no join row names the rule, no row of the rule is left and no listing of any
  organization contains it; the associations of the other rules are as before.  When the
  rule is absent or belongs to another organization, the answer is 404 and the store is
  unchanged.
\<close>

theorem delete_unbinds_before_destroy:
  assumes "db_ok d"
  shows "(Anomaly_findOne d (params_anomalyId req) (user_organizationId req) = Some a \<longrightarrow>
            deleteAnomaly req d =
              \<lparr>res = Response 200 (Message ''Anomaly deleted successfully''),
               store = destroy (setCameras d (params_anomalyId req) []) a,
               trace = [(AnomalyFindOne, d),
                        (SetCameras, setCameras d (params_anomalyId req) []),
                        (Destroy, destroy (setCameras d (params_anomalyId req) []) a)]\<rparr>
          \<and> cameras_of (setCameras d (params_anomalyId req) []) (params_anomalyId req) = []
          \<and> a \<in> set (anomalies (setCameras d (params_anomalyId req) []))
          \<and> list_all (\<lambda>e. db_ok (snd e)) (trace (deleteAnomaly req d))
          \<and> \<not> list_ex (\<lambda>r. fst r = params_anomalyId req)
                 (associations (store (deleteAnomaly req d)))
          \<and> \<not> list_ex (\<lambda>r. anomalyId r = params_anomalyId req)
                 (anomalies (store (deleteAnomaly req d)))
          \<and> \<not> list_ex (\<lambda>e. anomalyId (fst e) = params_anomalyId req)
                 (Anomaly_findAll (store (deleteAnomaly req d)) org attrs)
          \<and> (aid \<noteq> params_anomalyId req \<longrightarrow>
               cameras_of (store (deleteAnomaly req d)) aid = cameras_of d aid))
       \<and> (\<not> list_ex (\<lambda>r. anomalyId r = params_anomalyId req \<and>
                          organizationId r = user_organizationId req) (anomalies d) \<longrightarrow>
            deleteAnomaly req d =
              \<lparr>res = Response 404
                       (Message ''Anomaly not found or does not belong to your organization''),
               store = d, trace = [(AnomalyFindOne, d)]\<rparr>)"
proof (intro conjI impI)
  assume "\<not> list_ex (\<lambda>r. anomalyId r = params_anomalyId req \<and>
                          organizationId r = user_organizationId req) (anomalies d)"
  then show "deleteAnomaly req d =
              \<lparr>res = Response 404
                       (Message ''Anomaly not found or does not belong to your organization''),
               store = d, trace = [(AnomalyFindOne, d)]\<rparr>"
    by (simp add: deleteAnomaly_not_found Anomaly_findOne_None_iff)
next
  assume f: "Anomaly_findOne d (params_anomalyId req) (user_organizationId req) = Some a"
  then have a: "anomalyId a = params_anomalyId req" and mem: "a \<in> set (anomalies d)"
    by (simp_all add: Anomaly_findOne_SomeD)
  let ?d1 = "setCameras d (params_anomalyId req) []"
  note out = deleteAnomaly_found[OF f, unfolded a]
  show "deleteAnomaly req d =
              \<lparr>res = Response 200 (Message ''Anomaly deleted successfully''),
               store = destroy ?d1 a,
               trace = [(AnomalyFindOne, d), (SetCameras, ?d1), (Destroy, destroy ?d1 a)]\<rparr>"
    by (rule out)
  show c1: "cameras_of ?d1 (params_anomalyId req) = []" by simp
  show "a \<in> set (anomalies ?d1)" using mem by simp
  have ok1: "db_ok ?d1" using assms by (simp add: db_ok_setCameras)
  have ok2: "db_ok (destroy ?d1 a)" using ok1 c1 by (simp add: db_ok_destroy a)
  show "list_all (\<lambda>e. db_ok (snd e)) (trace (deleteAnomaly req d))"
    using assms ok1 ok2 by (simp add: out)
  show "\<not> list_ex (\<lambda>r. fst r = params_anomalyId req) (associations (store (deleteAnomaly req d)))"
    by (simp add: out no_rows_iff)
  show gone: "\<not> list_ex (\<lambda>r. anomalyId r = params_anomalyId req)
                 (anomalies (store (deleteAnomaly req d)))"
    by (simp add: out destroy_def a list_ex_iff)
  show "\<not> list_ex (\<lambda>e. anomalyId (fst e) = params_anomalyId req)
                 (Anomaly_findAll (store (deleteAnomaly req d)) org attrs)"
    using gone by (auto simp: Anomaly_findAll_def list_ex_iff)
  assume "aid \<noteq> params_anomalyId req"
  then show "cameras_of (store (deleteAnomaly req d)) aid = cameras_of d aid"
    by (simp add: out cameras_of_setCameras_other)
qed

theorem delete_unbinds_before_destroy_witness:
  "db_ok db0
   \<and> Anomaly_findOne db0 5 7 = Some rule5
   \<and> deleteAnomaly (req7 5 []) db0 =
        \<lparr>res = Response 200 (Message ''Anomaly deleted successfully''),
         store = db0\<lparr>anomalies := [rule6], associations := [(6, JNum 99)]\<rparr>,
         trace = [(AnomalyFindOne, db0),
                  (SetCameras, db0\<lparr>associations := [(6, JNum 99)]\<rparr>),
                  (Destroy, db0\<lparr>anomalies := [rule6], associations := [(6, JNum 99)]\<rparr>)]\<rparr>
   \<and> \<not> list_ex (\<lambda>r. anomalyId r = 6 \<and> organizationId r = 7) (anomalies db0)
   \<and> deleteAnomaly (req7 6 []) db0 =
        \<lparr>res = Response 404
                 (Message ''Anomaly not found or does not belong to your organization''),
         store = db0, trace = [(AnomalyFindOne, db0)]\<rparr>"
proof -
  have h1: "db_ok db0" by (rule db0_ok)
  have h2: "Anomaly_findOne db0 (params_anomalyId (req7 5 []))
              (user_organizationId (req7 5 [])) = Some rule5"
    by (simp add: req7_def db0_findOne_5)
  have h3: "\<not> list_ex (\<lambda>r. anomalyId r = params_anomalyId (req7 6 []) \<and>
                 organizationId r = user_organizationId (req7 6 [])) (anomalies db0)"
    by (simp add: req7_def db0_def rule5_def rule6_def)
  have s1: "setCameras db0 5 [] = db0\<lparr>associations := [(6, JNum 99)]\<rparr>"
    by (simp add: setCameras_def db0_def)
  have s2: "destroy (db0\<lparr>associations := [(6, JNum 99)]\<rparr>) rule5
              = db0\<lparr>anomalies := [rule6], associations := [(6, JNum 99)]\<rparr>"
    by (simp add: destroy_def db0_def rule5_def rule6_def)
  have p: "params_anomalyId (req7 5 []) = 5" by (simp add: req7_def)
  from delete_unbinds_before_destroy[OF h1, of "req7 5 []" rule5] h2
  have a: "deleteAnomaly (req7 5 []) db0 =
        \<lparr>res = Response 200 (Message ''Anomaly deleted successfully''),
         store = db0\<lparr>anomalies := [rule6], associations := [(6, JNum 99)]\<rparr>,
         trace = [(AnomalyFindOne, db0),
                  (SetCameras, db0\<lparr>associations := [(6, JNum 99)]\<rparr>),
                  (Destroy, db0\<lparr>anomalies := [rule6], associations := [(6, JNum 99)]\<rparr>)]\<rparr>"
    by (simp only: p s1 s2)
  from delete_unbinds_before_destroy[OF h1, of "req7 6 []"] h3
  have b: "deleteAnomaly (req7 6 []) db0 =
        \<lparr>res = Response 404
                 (Message ''Anomaly not found or does not belong to your organization''),
         store = db0, trace = [(AnomalyFindOne, db0)]\<rparr>"
    by simp
  from h1 h2 h3 a b show ?thesis by (simp add: req7_def)
qed

section \<open>Listing the rules\<close>

lemma select_public_attributes:
  "select_attributes [''cameraId'', ''location'', ''ipAddress'', ''cameraType'']
     (camera_toJSON c) = public_camera c"
  by (simp add: select_attributes_def camera_toJSON_def public_camera_def)

text \<open>
  Claim C8, as amended.  A list request is answered 200 with every rule of the acting
  organization and no other rule, after a single read of the store.  The cameras attached
  to a rule are the cameras associated with it.  Of the attributes of a camera each such
  object has exactly four: \<open>cameraId\<close>, \<open>location\<close>, \<open>ipAddress\<close>, \<open>cameraType\<close>; neither the
  camera's online/offline \<open>status\<close> nor its \<open>organizationId\<close> is in the output.  Each
  object has one more property, named after the join model: the join row, which holds
  the identifiers of the rule and of the camera.
\<close>

theorem list_exposes_public_attributes:
  "getAllAnomalies req d =
     \<lparr>res = Response 200 (Rules
        (map (\<lambda>a. (a, map (\<lambda>c. public_camera c @ [join_row (through d) (anomalyId a) c])
                        (filter (\<lambda>c. (anomalyId a, cameraId c) \<in> set (associations d))
                           (cameras d))))
           (filter (\<lambda>a. organizationId a = user_organizationId req) (anomalies d)))),
      store = d, trace = [(AnomalyFindAll, d)]\<rparr>
   \<and> map fst (public_camera c) = [''cameraId'', ''location'', ''ipAddress'', ''cameraType'']
   \<and> map snd (public_camera c) = [cameraId c, location c, ipAddress c, cameraType c]
   \<and> ''status'' \<notin> set (map fst (public_camera c))
   \<and> ''organizationId'' \<notin> set (map fst (public_camera c))
   \<and> join_row t aid c =
        (model_name t, JObj [(foreignKey t, JNum (of_nat aid)), (otherKey t, cameraId c)])"
  by (simp add: getAllAnomalies_def Let_def Anomaly_findAll_def include_Camera_def
        select_public_attributes public_camera_def join_row_def)

theorem list_exposes_public_attributes_witness:
  "getAllAnomalies (req7 0 []) db0 =
     \<lparr>res = Response 200 (Rules
        [(rule5, [[(''cameraId'', JNum 1), (''location'', JStr ''Gate''),
                   (''ipAddress'', JStr ''10.0.0.1''), (''cameraType'', JStr ''dome''),
                   (''AnomalyCameras'',
                    JObj [(''anomalyId'', JNum 5), (''cameraId'', JNum 1)])]])]),
      store = db0, trace = [(AnomalyFindAll, db0)]\<rparr>"
proof -
  have "map (\<lambda>a. (a, map (\<lambda>c. public_camera c @ [join_row (through db0) (anomalyId a) c])
                        (filter (\<lambda>c. (anomalyId a, cameraId c) \<in> set (associations db0))
                           (cameras db0))))
           (filter (\<lambda>a. organizationId a = user_organizationId (req7 0 [])) (anomalies db0))
        = [(rule5, [[(''cameraId'', JNum 1), (''location'', JStr ''Gate''),
                   (''ipAddress'', JStr ''10.0.0.1''), (''cameraType'', JStr ''dome''),
                   (''AnomalyCameras'',
                    JObj [(''anomalyId'', JNum 5), (''cameraId'', JNum 1)])]])]"
    by (simp add: req7_def db0_def rule5_def rule6_def cam1_def cam2_def cam99_def
          public_camera_def join_row_def)
  with list_exposes_public_attributes[of "req7 0 []" db0] show ?thesis by simp
qed

text \<open>
  Claim C8 as stated fails: the camera object that the listing of organization 7 attaches
  to rule 5 has five properties, the four public attributes of camera 1 and the join row.
\<close>

theorem list_exposes_public_attributes_counterexample:
  "map (\<lambda>e. map (map fst) (snd e)) (Anomaly_findAll db0 7
      [''cameraId'', ''location'', ''ipAddress'', ''cameraType''])
     = [[[''cameraId'', ''location'', ''ipAddress'', ''cameraType'', ''AnomalyCameras'']]]
   \<and> json (res (getAllAnomalies (req7 0 []) db0)) =
       Rules (Anomaly_findAll db0 7 [''cameraId'', ''location'', ''ipAddress'', ''cameraType''])"
  by (simp add: getAllAnomalies_def Let_def Anomaly_findAll_def include_Camera_def
        select_attributes_def camera_toJSON_def join_row_def req7_def db0_def rule5_def
        rule6_def cam1_def cam2_def cam99_def)

section \<open>The handlers keep the store well-formed\<close>

lemma addAnomaly_cases:
  "(store (addAnomaly req d) = d \<and> list_all (\<lambda>e. snd e = d) (trace (addAnomaly req d)))
   \<or> (\<exists>ids days. list_all (\<lambda>k. truthy (property (body req) k)) required_fields \<and>
         property (body req) ''cameraIds'' = JArr ids \<and> ids \<noteq> [] \<and>
         property (body req) ''daysOfWeek'' = JArr days \<and>
         list_all (\<lambda>day. day \<in> set DAYS_OF_WEEK) days \<and>
         length (Camera_findAll d ids (user_organizationId req)) = length ids)"
  unfolding required_all
  by (auto simp: addAnomaly_def Let_def split: jsval.splits)

lemma addAnomaly_db_ok:
  assumes "db_ok d"
  shows "db_ok (store (addAnomaly req d)) \<and> list_all (\<lambda>e. db_ok (snd e)) (trace (addAnomaly req d))"
proof -
  from addAnomaly_cases[of req d] show ?thesis
  proof
    assume "store (addAnomaly req d) = d \<and> list_all (\<lambda>e. snd e = d) (trace (addAnomaly req d))"
    with assms show ?thesis by (auto simp: list_all_iff)
  next
    assume "\<exists>ids days. list_all (\<lambda>k. truthy (property (body req) k)) required_fields \<and>
         property (body req) ''cameraIds'' = JArr ids \<and> ids \<noteq> [] \<and>
         property (body req) ''daysOfWeek'' = JArr days \<and>
         list_all (\<lambda>day. day \<in> set DAYS_OF_WEEK) days \<and>
         length (Camera_findAll d ids (user_organizationId req)) = length ids"
    then obtain ids days where h:
      "list_all (\<lambda>k. truthy (property (body req) k)) required_fields"
      "property (body req) ''cameraIds'' = JArr ids" "ids \<noteq> []"
      "property (body req) ''daysOfWeek'' = JArr days"
      "list_all (\<lambda>day. day \<in> set DAYS_OF_WEEK) days"
      "length (Camera_findAll d ids (user_organizationId req)) = length ids"
      by blast
    obtain a d1 where cr:
      "Anomaly_create d (property (body req) ''title'') (property (body req) ''description'')
         (property (body req) ''criticality'') (property (body req) ''modelName'')
         (user_organizationId req) (property (body req) ''startTime'')
         (property (body req) ''endTime'') (property (body req) ''daysOfWeek'') = (a, d1)"
      by (cases "Anomaly_create d (property (body req) ''title'')
         (property (body req) ''description'') (property (body req) ''criticality'')
         (property (body req) ''modelName'') (user_organizationId req)
         (property (body req) ''startTime'') (property (body req) ''endTime'')
         (property (body req) ''daysOfWeek'')")
    note c = db_ok_create[OF assms cr]
    have "db_ok (setCameras d1 (anomalyId a) (Camera_findAll d ids (user_organizationId req)))"
      using c Camera_findAll_distinct[OF assms, of ids "user_organizationId req"]
        Camera_findAll_subset[of d ids "user_organizationId req"]
      by (intro db_ok_setCameras) simp_all
    with assms c show ?thesis
      by (simp add: addAnomaly_resolved[OF h cr])
  qed
qed

lemma updateAnomaly_db_ok:
  assumes "db_ok d"
  shows "db_ok (store (updateAnomaly req d))
         \<and> list_all (\<lambda>e. db_ok (snd e)) (trace (updateAnomaly req d))"
proof (cases "Anomaly_findOne d (params_anomalyId req) (user_organizationId req)")
  case None
  with assms show ?thesis by (simp add: updateAnomaly_not_found)
next
  case (Some a)
  then have mem: "anomalyId a \<in> set (map anomalyId (anomalies d))"
    by (auto dest: Anomaly_findOne_SomeD)
  show ?thesis
  proof (cases "truthy (property (body req) ''cameraIds'')")
    case False
    with assms show ?thesis by (simp add: updateAnomaly_fields_only[OF Some] db_ok_save)
  next
    case True
    show ?thesis
    proof (cases "\<exists>ids. property (body req) ''cameraIds'' = JArr ids")
      case False
      then have na: "\<forall>ids. property (body req) ''cameraIds'' \<noteq> JArr ids" by simp
      show ?thesis
      proof (cases "js_length (property (body req) ''cameraIds'') = JNum 0")
        case False
        with assms show ?thesis by (simp add: updateAnomaly_not_array_rejected[OF Some True na])
      next
        case zero: True
        have "db_ok (setCameras d (anomalyId a) [])" using assms by (simp add: db_ok_setCameras)
        with assms show ?thesis
          by (simp add: updateAnomaly_not_array_cleared[OF Some True na zero refl] db_ok_save)
      qed
    next
      case True
      then obtain ids where c: "property (body req) ''cameraIds'' = JArr ids" by blast
      show ?thesis
      proof (cases "length (Camera_findAll d ids (user_organizationId req)) = length ids")
        case False
        with assms show ?thesis by (simp add: updateAnomaly_unresolved[OF Some c])
      next
        case True
        have "db_ok (setCameras d (anomalyId a) (Camera_findAll d ids (user_organizationId req)))"
          using assms mem Camera_findAll_distinct[OF assms, of ids "user_organizationId req"]
            Camera_findAll_subset[of d ids "user_organizationId req"]
          by (intro db_ok_setCameras) simp_all
        with assms show ?thesis
          by (simp add: updateAnomaly_rebound[OF Some c True refl] db_ok_save)
      qed
    qed
  qed
qed

lemma deleteAnomaly_db_ok:
  assumes "db_ok d"
  shows "db_ok (store (deleteAnomaly req d))
         \<and> list_all (\<lambda>e. db_ok (snd e)) (trace (deleteAnomaly req d))"
proof (cases "Anomaly_findOne d (params_anomalyId req) (user_organizationId req)")
  case None
  with assms show ?thesis by (simp add: deleteAnomaly_not_found)
next
  case (Some a)
  have "db_ok (setCameras d (anomalyId a) [])" using assms by (simp add: db_ok_setCameras)
  moreover from this have "db_ok (destroy (setCameras d (anomalyId a) []) a)"
    by (simp add: db_ok_destroy)
  ultimately show ?thesis using assms by (simp add: deleteAnomaly_found[OF Some])
qed

lemma getAllAnomalies_db_ok:
  "db_ok d \<Longrightarrow> db_ok (store (getAllAnomalies req d))
     \<and> list_all (\<lambda>e. db_ok (snd e)) (trace (getAllAnomalies req d))"
  by (simp add: getAllAnomalies_def Let_def)

lemma db_ok_empty:
  "db_ok \<lparr>cameras = [], anomalies = [], associations = [], next_anomalyId = n, through = t\<rparr>"
  by (simp add: db_ok_def)

end
